theory Spec2Isabelle
  imports Main "HOL-Library.Word"
begin

section \<open>Data model\<close>

text \<open>
  The rows of the relational store that the access-control code reads. Primary keys are
  natural numbers; a nullable foreign key is an option.
\<close>

record ApollosUser =
  user_pk :: nat
  is_org_admin :: bool
  is_staff :: bool

record Team =
  team_pk :: nat
  team_slug :: string
  team_name :: string

record TeamMembership =
  membership_user :: nat
  membership_team :: nat
  membership_role :: string

text \<open>
  \<open>request.user\<close>: either the unauthenticated placeholder, whose \<open>is_authenticated\<close> is
  false and which carries no \<open>object\<close>, or an authenticated wrapper around the user row.
\<close>

datatype RequestUser = UnauthenticatedUser | AuthenticatedUser ApollosUser

fun is_authenticated :: "RequestUser \<Rightarrow> bool" where
  "is_authenticated UnauthenticatedUser = False"
| "is_authenticated (AuthenticatedUser u) = True"

datatype HTTPException = HTTPException (status_code: nat) (detail: string)

section \<open>Role resolution (\<open>routers/auth_helpers.py\<close>)\<close>

definition ROLE_HIERARCHY :: "string \<rightharpoonup> nat" where
  "ROLE_HIERARCHY = [''member'' \<mapsto> 0, ''team_lead'' \<mapsto> 1, ''admin'' \<mapsto> 2]"

text \<open>\<open>ROLE_HIERARCHY.get(role, 0)\<close>: a name that is not a key has level 0.\<close>

definition role_level :: "string \<Rightarrow> nat" where
  "role_level r = (case ROLE_HIERARCHY r of Some n \<Rightarrow> n | None \<Rightarrow> 0)"

text \<open>\<open>Team.objects.filter(slug=team_slug).first()\<close>\<close>

definition team_by_slug :: "Team list \<Rightarrow> string \<Rightarrow> Team option" where
  "team_by_slug teams s = find (\<lambda>t. team_slug t = s) teams"

text \<open>\<open>TeamMembership.objects.filter(user=user, team=team).first()\<close>, then its role.\<close>

definition get_user_role_in_team ::
  "TeamMembership list \<Rightarrow> ApollosUser \<Rightarrow> Team \<Rightarrow> string option" where
  "get_user_role_in_team memberships u t =
     (case find (\<lambda>m. membership_user m = user_pk u \<and> membership_team m = team_pk t) memberships of
        None \<Rightarrow> None
      | Some membership \<Rightarrow> Some (membership_role membership))"

definition require_team_role ::
  "Team list \<Rightarrow> TeamMembership list \<Rightarrow> RequestUser \<Rightarrow> string \<Rightarrow> string
     \<Rightarrow> HTTPException + (ApollosUser \<times> Team)" where
  "require_team_role teams memberships request_user slug min_role =
     (case request_user of
        UnauthenticatedUser \<Rightarrow> Inl (HTTPException 401 ''Authentication required'')
      | AuthenticatedUser u \<Rightarrow>
          if is_org_admin u \<or> is_staff u then
            (case team_by_slug teams slug of
               None \<Rightarrow> Inl (HTTPException 404 ''Team not found'')
             | Some team \<Rightarrow> Inr (u, team))
          else
            (case team_by_slug teams slug of
               None \<Rightarrow> Inl (HTTPException 404 ''Team not found'')
             | Some team \<Rightarrow>
                 (case get_user_role_in_team memberships u team of
                    None \<Rightarrow> Inl (HTTPException 403 ''Not a member of this team'')
                  | Some r \<Rightarrow>
                      let min_level = role_level min_role;
                          user_level = role_level r
                      in if user_level < min_level
                         then Inl (HTTPException 403 (''Requires '' @ min_role @ '' role or higher''))
                         else Inr (u, team))))"

text \<open>\<open>get_user_highest_role\<close>: the loop over the user's memberships keeps the best role seen.\<close>

fun highest_role_loop :: "string \<Rightarrow> TeamMembership list \<Rightarrow> string" where
  "highest_role_loop highest [] = highest"
| "highest_role_loop highest (m # ms) =
     highest_role_loop
       (if role_level (membership_role m) > role_level highest then membership_role m else highest) ms"

definition get_user_highest_role :: "TeamMembership list \<Rightarrow> ApollosUser \<Rightarrow> string" where
  "get_user_highest_role memberships u =
     (if is_org_admin u \<or> is_staff u then ''admin''
      else highest_role_loop ''member''
             (filter (\<lambda>m. membership_user m = user_pk u) memberships))"

section \<open>Content rows and their visibility (\<open>routers/api_content.py\<close>)\<close>

text \<open>
  \<open>Entry.Visibility\<close> is a text choice whose declaration is not among the sources; its
  stored values are the ones the handlers and the tests compare against: the default
  \<open>"private"\<close>, \<open>"team"\<close>, and \<open>"org"\<close> for organization-wide content.
\<close>

definition Visibility_PRIVATE :: string where "Visibility_PRIVATE = ''private''"
definition Visibility_TEAM :: string where "Visibility_TEAM = ''team''"
definition Visibility_ORGANIZATION :: string where "Visibility_ORGANIZATION = ''org''"

record Entry =
  entry_pk :: nat
  entry_user :: "nat option"
  entry_agent :: "nat option"
  entry_visibility :: string
  entry_team :: "nat option"
  entry_file_path :: string
  entry_shared_by :: "nat option"

record Database =
  db_teams :: "Team list"
  db_memberships :: "TeamMembership list"
  db_entries :: "Entry list"

text \<open>
  The loop of \<open>_check_delete_permission_for_entries\<close> over the distinct team ids of the
  team-visible targets: a null id and an id without a team row are skipped, and the first
  team in which the user is below \<open>team_lead\<close> raises. The result is the exception raised,
  if any.
\<close>

fun check_delete_team_ids ::
  "Team list \<Rightarrow> TeamMembership list \<Rightarrow> ApollosUser \<Rightarrow> nat option list \<Rightarrow> HTTPException option" where
  "check_delete_team_ids teams memberships u [] = None"
| "check_delete_team_ids teams memberships u (team_id # rest) =
     (case team_id of
        None \<Rightarrow> check_delete_team_ids teams memberships u rest
      | Some i \<Rightarrow>
          (case find (\<lambda>t. team_pk t = i) teams of
             None \<Rightarrow> check_delete_team_ids teams memberships u rest
           | Some team \<Rightarrow>
               (case get_user_role_in_team memberships u team of
                  None \<Rightarrow> Some (HTTPException 403
                    (''Requires team_lead role or higher in team '' @ [CHR 39] @ team_name team
                       @ [CHR 39] @ '' to delete team content''))
                | Some r \<Rightarrow>
                    if role_level r < the (ROLE_HIERARCHY ''team_lead'')
                    then Some (HTTPException 403
                      (''Requires team_lead role or higher in team '' @ [CHR 39] @ team_name team
                         @ [CHR 39] @ '' to delete team content''))
                    else check_delete_team_ids teams memberships u rest)))"

definition check_delete_permission_for_entries ::
  "Team list \<Rightarrow> TeamMembership list \<Rightarrow> ApollosUser \<Rightarrow> Entry list \<Rightarrow> HTTPException option" where
  "check_delete_permission_for_entries teams memberships u entries_qs =
     (let is_admin = (is_org_admin u \<or> is_staff u);
          has_org_entries =
            (filter (\<lambda>e. entry_visibility e = Visibility_ORGANIZATION) entries_qs \<noteq> [])
      in if has_org_entries \<and> \<not> is_admin
         then Some (HTTPException 403 ''Only admins can delete org-wide content'')
         else if \<not> is_admin then
           (let team_entries = filter (\<lambda>e. entry_visibility e = Visibility_TEAM) entries_qs
            in if team_entries \<noteq> []
               then check_delete_team_ids teams memberships u (remdups (map entry_team team_entries))
               else None)
         else None)"

record DeleteResponse =
  delete_status :: string
  deleted_count :: "nat option"

text \<open>
  The two delete handlers. \<open>EntryAdapters\<close> and \<open>FileObjectAdapters\<close> are not among the
  sources, so the deleting calls are parameters: \<open>adelete_entry_by_file\<close> and
  \<open>adelete_entries_by_filenames\<close> take the user and the file name(s) and return the store
  after the deletion (the second also the number of rows deleted), and
  \<open>adelete_file_object_by_name\<close> removes the stored file object. An exception raised by the
  permission check leaves the handler before any of them is called. Telemetry is not part
  of the store and is left out.
\<close>

definition delete_content_files ::
  "(ApollosUser \<Rightarrow> string \<Rightarrow> Database \<Rightarrow> Database)
     \<Rightarrow> (ApollosUser \<Rightarrow> string \<Rightarrow> Database \<Rightarrow> Database)
     \<Rightarrow> Database \<Rightarrow> ApollosUser \<Rightarrow> string \<Rightarrow> Database \<times> (HTTPException + DeleteResponse)" where
  "delete_content_files adelete_entry_by_file adelete_file_object_by_name db u filename =
     (let entries_qs = filter (\<lambda>e. entry_user e = Some (user_pk u) \<and> entry_file_path e = filename)
                         (db_entries db)
      in case check_delete_permission_for_entries (db_teams db) (db_memberships db) u entries_qs of
           Some exc \<Rightarrow> (db, Inl exc)
         | None \<Rightarrow>
             (adelete_file_object_by_name u filename (adelete_entry_by_file u filename db),
              Inr \<lparr>delete_status = ''ok'', deleted_count = None\<rparr>))"

definition delete_content_file ::
  "(ApollosUser \<Rightarrow> string list \<Rightarrow> Database \<Rightarrow> nat \<times> Database)
     \<Rightarrow> (ApollosUser \<Rightarrow> string \<Rightarrow> Database \<Rightarrow> Database)
     \<Rightarrow> Database \<Rightarrow> ApollosUser \<Rightarrow> string list \<Rightarrow> Database \<times> (HTTPException + DeleteResponse)" where
  "delete_content_file adelete_entries_by_filenames adelete_file_object_by_name db u files =
     (let entries_qs = filter (\<lambda>e. entry_user e = Some (user_pk u) \<and> entry_file_path e \<in> set files)
                         (db_entries db)
      in case check_delete_permission_for_entries (db_teams db) (db_memberships db) u entries_qs of
           Some exc \<Rightarrow> (db, Inl exc)
         | None \<Rightarrow>
             (case adelete_entries_by_filenames u files db of
                (n, db1) \<Rightarrow>
                  (foldl (\<lambda>d file. adelete_file_object_by_name u file d) db1 files,
                   Inr \<lparr>delete_status = ''ok'', deleted_count = Some n\<rparr>)))"

text \<open>
  Modelled from the spec: \<open>EntryAdapters.adelete_entries_by_filenames\<close> and
  \<open>FileObjectAdapters.adelete_file_object_by_name\<close> are missing from the sources. The first
  deletes the caller's entries whose file path is one of the names and returns how many
  there were; file objects are not among the modelled tables, so the second leaves the
  modelled store as it is. They are used to run the handler on sample data only.
\<close>

definition adelete_entries_by_filenames_model ::
  "ApollosUser \<Rightarrow> string list \<Rightarrow> Database \<Rightarrow> nat \<times> Database" where
  "adelete_entries_by_filenames_model u files db =
     (length (filter (\<lambda>e. entry_user e = Some (user_pk u) \<and> entry_file_path e \<in> set files)
                (db_entries db)),
      db\<lparr>db_entries :=
           filter (\<lambda>e. \<not> (entry_user e = Some (user_pk u) \<and> entry_file_path e \<in> set files))
             (db_entries db)\<rparr>)"

definition adelete_file_object_by_name_model ::
  "ApollosUser \<Rightarrow> string \<Rightarrow> Database \<Rightarrow> Database" where
  "adelete_file_object_by_name_model u file db = db"

subsection \<open>Sharing\<close>

record ShareBody =
  body_file_path :: "string option"
  body_visibility :: "string option"
  body_team_slug :: "string option"

record ShareResponse =
  share_status :: string
  share_count :: nat
  share_visibility :: string

text \<open>Python's \<open>not s\<close> for a value that is \<open>None\<close> or a string.\<close>

fun py_not :: "string option \<Rightarrow> bool" where
  "py_not None = True"
| "py_not (Some s) = (s = [])"

text \<open>
  \<open>DbEntry.objects.filter(user=user, file_path=file_path).update(**update_kwargs)\<close>: every
  matching row gets the new visibility and \<open>shared_by\<close>, and the team when one is given.
\<close>

definition share_update ::
  "ApollosUser \<Rightarrow> string \<Rightarrow> string \<Rightarrow> Team option \<Rightarrow> Entry \<Rightarrow> Entry" where
  "share_update u file_path target_visibility target_team e =
     (if entry_user e = Some (user_pk u) \<and> entry_file_path e = file_path
      then (case target_team of
              None \<Rightarrow> e\<lparr>entry_visibility := target_visibility, entry_shared_by := Some (user_pk u)\<rparr>
            | Some team \<Rightarrow>
                e\<lparr>entry_visibility := target_visibility, entry_shared_by := Some (user_pk u),
                   entry_team := Some (team_pk team)\<rparr>)
      else e)"

definition share_apply ::
  "Database \<Rightarrow> ApollosUser \<Rightarrow> string \<Rightarrow> string \<Rightarrow> Team option
     \<Rightarrow> Database \<times> (HTTPException + ShareResponse)" where
  "share_apply db u file_path target_visibility target_team =
     (let count = length (filter (\<lambda>e. entry_user e = Some (user_pk u) \<and> entry_file_path e = file_path)
                            (db_entries db));
          db' = db\<lparr>db_entries := map (share_update u file_path target_visibility target_team)
                                    (db_entries db)\<rparr>
      in if count = 0 then (db', Inl (HTTPException 404 ''No entries found for this file''))
         else (db', Inr \<lparr>share_status = ''shared'', share_count = count,
                          share_visibility = target_visibility\<rparr>))"

definition share_content ::
  "Database \<Rightarrow> ApollosUser \<Rightarrow> ShareBody \<Rightarrow> Database \<times> (HTTPException + ShareResponse)" where
  "share_content db u body =
     (let file_path = body_file_path body;
          target_visibility = body_visibility body;
          target_team_slug = body_team_slug body
      in if py_not file_path \<or> py_not target_visibility
         then (db, Inl (HTTPException 400 ''file_path and visibility are required''))
         else if the target_visibility \<notin> {''team'', ''org''}
         then (db, Inl (HTTPException 400 (''visibility must be '' @ [CHR 39] @ ''team'' @ [CHR 39]
                                             @ '' or '' @ [CHR 39] @ ''org'' @ [CHR 39])))
         else if the target_visibility = ''org'' \<and> \<not> (is_org_admin u \<or> is_staff u)
         then (db, Inl (HTTPException 403 ''Only admins can share to organization''))
         else if the target_visibility = ''team'' then
           (if py_not target_team_slug
            then (db, Inl (HTTPException 400 ''team_slug required for team sharing''))
            else (case team_by_slug (db_teams db) (the target_team_slug) of
                    None \<Rightarrow> (db, Inl (HTTPException 404 ''Team not found''))
                  | Some target_team \<Rightarrow>
                      let is_member =
                            (filter (\<lambda>m. membership_user m = user_pk u
                                           \<and> membership_team m = team_pk target_team)
                               (db_memberships db) \<noteq> [])
                      in if \<not> is_member \<and> \<not> (is_org_admin u \<or> is_staff u)
                         then (db, Inl (HTTPException 403 ''You are not a member of this team''))
                         else share_apply db u (the file_path) (the target_visibility)
                                (Some target_team)))
         else share_apply db u (the file_path) (the target_visibility) None)"

text \<open>The order of the visibility tiers, private below team below organization.\<close>

definition visibility_rank :: "string \<Rightarrow> nat" where
  "visibility_rank v =
     (if v = Visibility_ORGANIZATION then 2 else if v = Visibility_TEAM then 1 else 0)"

section \<open>The access predicate\<close>

text \<open>
  Modelled from the spec: \<open>build_entry_access_filter\<close> and \<open>get_user_team_ids\<close> live in
  \<open>database/adapters\<close>, which is missing from the sources (only their tests are present).
  The definitions follow section 4.2 of the specification step by step: no principal and no
  agent gives the predicate that matches nothing; an agent gives the rows owned by that
  agent; otherwise the clauses for organization, private and team visibility are joined
  by OR. The predicate is an expression tree, evaluated on a row by \<open>matches\<close>.
\<close>

datatype Predicate =
    MatchNothing
  | MatchAll
  | AgentIs nat
  | VisibilityIs string
  | OwnerIs nat
  | OwnerIsNone
  | TeamIdIn "nat list"
  | And Predicate Predicate
  | Or Predicate Predicate

fun matches :: "Predicate \<Rightarrow> Entry \<Rightarrow> bool" where
  "matches MatchNothing e = False"
| "matches MatchAll e = True"
| "matches (AgentIs a) e = (entry_agent e = Some a)"
| "matches (VisibilityIs v) e = (entry_visibility e = v)"
| "matches (OwnerIs i) e = (entry_user e = Some i)"
| "matches OwnerIsNone e = (entry_user e = None)"
| "matches (TeamIdIn ids) e = (case entry_team e of None \<Rightarrow> False | Some i \<Rightarrow> i \<in> set ids)"
| "matches (And p q) e = (matches p e \<and> matches q e)"
| "matches (Or p q) e = (matches p e \<or> matches q e)"

definition get_user_team_ids :: "TeamMembership list \<Rightarrow> ApollosUser option \<Rightarrow> nat list" where
  "get_user_team_ids memberships user =
     (case user of
        None \<Rightarrow> []
      | Some u \<Rightarrow> map membership_team (filter (\<lambda>m. membership_user m = user_pk u) memberships))"

definition buildFilter ::
  "TeamMembership list \<Rightarrow> ApollosUser option \<Rightarrow> nat option \<Rightarrow> Predicate" where
  "buildFilter memberships user agent =
     (if user = None \<and> agent = None then MatchNothing
      else case agent of
        Some a \<Rightarrow> AgentIs a
      | None \<Rightarrow>
          (let org_clause = And (VisibilityIs Visibility_ORGANIZATION)
                                (if user \<noteq> None then MatchAll else OwnerIsNone)
           in case user of
                None \<Rightarrow> org_clause
              | Some u \<Rightarrow>
                  Or (Or org_clause
                         (And (VisibilityIs Visibility_PRIVATE) (OwnerIs (user_pk u))))
                     (And (VisibilityIs Visibility_TEAM)
                          (TeamIdIn (get_user_team_ids memberships user)))))"

text \<open>Whether the user has a membership row, of any role, in the team with the given id.\<close>

definition has_membership :: "TeamMembership list \<Rightarrow> ApollosUser \<Rightarrow> nat \<Rightarrow> bool" where
  "has_membership memberships u team_id =
     list_ex (\<lambda>m. membership_user m = user_pk u \<and> membership_team m = team_id) memberships"

section \<open>The credential vault (\<open>utils/crypto.py\<close>)\<close>

text \<open>
  Text that is encoded or encrypted is a Python \<open>str\<close>: a list of code points, each below
  \<open>0x110000\<close>, surrogates included. Bytes are 8-bit words.
\<close>

type_synonym byte = "8 word"
type_synonym bytes = "byte list"
type_synonym pystr = "nat list"

datatype py_error =
    ValueError | UnicodeEncodeError | UnicodeDecodeError | binascii_Error | InvalidTag
  | KeyError | JSONDecodeError | DoesNotExist | TransportError

text \<open>A string literal of the source as a \<open>str\<close>.\<close>

definition py_literal :: "string \<Rightarrow> pystr" where
  "py_literal s = map of_char s"

subsection \<open>\<open>str.encode()\<close> and \<open>bytes.decode()\<close>: strict UTF-8\<close>

text \<open>
  \<open>str.encode()\<close> raises \<open>UnicodeEncodeError\<close> on a surrogate code point;
  \<open>bytes.decode()\<close> raises \<open>UnicodeDecodeError\<close> on a stray or missing continuation
  byte, an overlong form, an encoded surrogate and a value above \<open>0x10FFFF\<close>.
\<close>

definition utf8_encode_char :: "nat \<Rightarrow> bytes option" where
  "utf8_encode_char c =
     (if c < 0x80 then Some [of_nat c]
      else if c < 0x800 then Some [of_nat (0xC0 + c div 64), of_nat (0x80 + c mod 64)]
      else if c < 0x10000 then
        (if 0xD800 \<le> c \<and> c \<le> 0xDFFF then None
         else Some [of_nat (0xE0 + c div 4096), of_nat (0x80 + c div 64 mod 64),
                    of_nat (0x80 + c mod 64)])
      else if c < 0x110000 then
        Some [of_nat (0xF0 + c div 262144), of_nat (0x80 + c div 4096 mod 64),
              of_nat (0x80 + c div 64 mod 64), of_nat (0x80 + c mod 64)]
      else None)"

fun str_encode :: "pystr \<Rightarrow> py_error + bytes" where
  "str_encode [] = Inr []"
| "str_encode (c # cs) =
     (case utf8_encode_char c of
        None \<Rightarrow> Inl UnicodeEncodeError
      | Some bs \<Rightarrow> (case str_encode cs of Inl e \<Rightarrow> Inl e | Inr rest \<Rightarrow> Inr (bs @ rest)))"

definition is_continuation :: "byte \<Rightarrow> bool" where
  "is_continuation b = (0x80 \<le> unat b \<and> unat b < 0xC0)"

definition prepend_char :: "nat \<Rightarrow> py_error + pystr \<Rightarrow> py_error + pystr" where
  "prepend_char c r = (case r of Inl e \<Rightarrow> Inl e | Inr cs \<Rightarrow> Inr (c # cs))"

fun bytes_decode :: "bytes \<Rightarrow> py_error + pystr" where
  "bytes_decode [] = Inr []"
| "bytes_decode (b0 # rest) =
     (if unat b0 < 0x80 then prepend_char (unat b0) (bytes_decode rest)
      else if unat b0 < 0xC2 then Inl UnicodeDecodeError
      else if unat b0 < 0xE0 then
        (case rest of
           b1 # r \<Rightarrow>
             if is_continuation b1
             then prepend_char ((unat b0 - 0xC0) * 64 + (unat b1 - 0x80)) (bytes_decode r)
             else Inl UnicodeDecodeError
         | _ \<Rightarrow> Inl UnicodeDecodeError)
      else if unat b0 < 0xF0 then
        (case rest of
           b1 # b2 # r \<Rightarrow>
             if is_continuation b1 \<and> is_continuation b2
                \<and> 0x800 \<le> (unat b0 - 0xE0) * 4096 + (unat b1 - 0x80) * 64 + (unat b2 - 0x80)
                \<and> \<not> (0xD800 \<le> (unat b0 - 0xE0) * 4096 + (unat b1 - 0x80) * 64 + (unat b2 - 0x80)
                      \<and> (unat b0 - 0xE0) * 4096 + (unat b1 - 0x80) * 64 + (unat b2 - 0x80) \<le> 0xDFFF)
             then prepend_char ((unat b0 - 0xE0) * 4096 + (unat b1 - 0x80) * 64 + (unat b2 - 0x80))
                    (bytes_decode r)
             else Inl UnicodeDecodeError
         | _ \<Rightarrow> Inl UnicodeDecodeError)
      else if unat b0 < 0xF5 then
        (case rest of
           b1 # b2 # b3 # r \<Rightarrow>
             if is_continuation b1 \<and> is_continuation b2 \<and> is_continuation b3
                \<and> 0x10000 \<le> (unat b0 - 0xF0) * 262144 + (unat b1 - 0x80) * 4096
                                + (unat b2 - 0x80) * 64 + (unat b3 - 0x80)
                \<and> (unat b0 - 0xF0) * 262144 + (unat b1 - 0x80) * 4096
                     + (unat b2 - 0x80) * 64 + (unat b3 - 0x80) < 0x110000
             then prepend_char ((unat b0 - 0xF0) * 262144 + (unat b1 - 0x80) * 4096
                                  + (unat b2 - 0x80) * 64 + (unat b3 - 0x80))
                    (bytes_decode r)
             else Inl UnicodeDecodeError
         | _ \<Rightarrow> Inl UnicodeDecodeError)
      else Inl UnicodeDecodeError)"

subsection \<open>\<open>base64.b64encode\<close> and \<open>base64.b64decode\<close>\<close>

text \<open>
  The standard alphabet of RFC 4648 with \<open>=\<close> (code point 61) as padding. The encoder's
  output is given as the \<open>str\<close> that \<open>.decode()\<close> makes of it.
\<close>

definition b64_char :: "nat \<Rightarrow> nat" where
  "b64_char i =
     (if i < 26 then 65 + i
      else if i < 52 then 97 + (i - 26)
      else if i < 62 then 48 + (i - 52)
      else if i = 62 then 43 else 47)"

definition b64_index :: "nat \<Rightarrow> nat option" where
  "b64_index c =
     (if 65 \<le> c \<and> c \<le> 90 then Some (c - 65)
      else if 97 \<le> c \<and> c \<le> 122 then Some (c - 97 + 26)
      else if 48 \<le> c \<and> c \<le> 57 then Some (c - 48 + 52)
      else if c = 43 then Some 62
      else if c = 47 then Some 63
      else None)"

fun b64encode :: "bytes \<Rightarrow> pystr" where
  "b64encode [] = []"
| "b64encode [a] = [b64_char (unat a div 4), b64_char (unat a mod 4 * 16), 61, 61]"
| "b64encode [a, b] =
     [b64_char (unat a div 4), b64_char (unat a mod 4 * 16 + unat b div 16),
      b64_char (unat b mod 16 * 4), 61]"
| "b64encode (a # b # c # rest) =
     [b64_char (unat a div 4), b64_char (unat a mod 4 * 16 + unat b div 16),
      b64_char (unat b mod 16 * 4 + unat c div 64), b64_char (unat c mod 64)]
     @ b64encode rest"

text \<open>
  The decoder, \<open>binascii.a2b_base64\<close> in its default mode, reads the text character by
  character. \<open>quad_pos\<close> counts the characters of the current group of four, \<open>leftchar\<close>
  holds the bits not yet written, \<open>pads\<close> the padding characters seen in a row. A padding
  character that completes a group after at least two data characters ends the decoding,
  whatever follows; any other padding character and every character outside the alphabet
  is skipped; a text that ends inside a group is an error.
\<close>

definition emit :: "byte \<Rightarrow> bytes option \<Rightarrow> bytes option" where
  "emit b r = (case r of None \<Rightarrow> None | Some bs \<Rightarrow> Some (b # bs))"

fun a2b_base64 :: "nat \<Rightarrow> nat \<Rightarrow> nat \<Rightarrow> pystr \<Rightarrow> bytes option" where
  "a2b_base64 quad_pos leftchar pads [] = (if quad_pos \<noteq> 0 then None else Some [])"
| "a2b_base64 quad_pos leftchar pads (this_ch # rest) =
     (if this_ch = 61 then
        (if 2 \<le> quad_pos \<and> 4 \<le> quad_pos + (pads + 1) then Some []
         else a2b_base64 quad_pos leftchar (if 2 \<le> quad_pos then pads + 1 else pads) rest)
      else
        (case b64_index this_ch of
           None \<Rightarrow> a2b_base64 quad_pos leftchar pads rest
         | Some v \<Rightarrow>
             if quad_pos = 0 then a2b_base64 1 v 0 rest
             else if quad_pos = 1 then
               emit (of_nat (leftchar * 4 + v div 16)) (a2b_base64 2 (v mod 16) 0 rest)
             else if quad_pos = 2 then
               emit (of_nat (leftchar * 16 + v div 4)) (a2b_base64 3 (v mod 4) 0 rest)
             else
               emit (of_nat (leftchar * 64 + v)) (a2b_base64 0 0 0 rest)))"

text \<open>
  \<open>base64.b64decode(s)\<close> for a \<open>str\<close>: the text is first encoded as ASCII, which is a
  \<open>ValueError\<close> when it holds any other character, and then decoded.
\<close>

definition b64decode :: "pystr \<Rightarrow> py_error + bytes" where
  "b64decode s =
     (if \<exists>c \<in> set s. 128 \<le> c then Inl ValueError
      else case a2b_base64 0 0 0 s of
             None \<Rightarrow> Inl binascii_Error
           | Some bs \<Rightarrow> Inr bs)"

subsection \<open>The vault functions\<close>

text \<open>
  What the code takes from outside: the process environment, the \<open>cryptography\<close>
  package and the operating system's random bytes. \<open>hkdf_sha256 info key_material\<close>
  stands for \<open>HKDF(SHA256, length=32, salt=None, info).derive(key_material)\<close>,
  \<open>aesgcm_encrypt key nonce data\<close> for \<open>AESGCM(key).encrypt(nonce, data, None)\<close>, which
  returns the ciphertext followed by the tag, and \<open>aesgcm_decrypt key nonce data\<close> for
  \<open>AESGCM(key).decrypt(nonce, data, None)\<close>, which raises when the tag does not verify.
  \<open>os.urandom(n)\<close> reads the next \<open>n\<close> bytes of a stream, from a position that is passed
  along. \<open>timezone_now\<close> is the clock, in seconds.
\<close>

text \<open>
  The HTTP client: a call returns a response or raises (a timeout, a refused connection).
  A response has a status code and, when its body is JSON, the document that
  \<open>resp.json()\<close> returns; of the document only the keys the code reads are kept, an
  absent key being \<open>None\<close>. The form posted to the token endpoint has the fields the code
  fills in.
\<close>

record JsonDocument =
  json_token_endpoint :: "string option"
  json_access_token :: "pystr option"
  json_refresh_token :: "pystr option"
  json_expires_in :: "int option"

record HttpResponse =
  resp_status_code :: nat
  resp_json :: "JsonDocument option"

record FormData =
  form_grant_type :: string
  form_refresh_token :: pystr
  form_client_id :: "string option"
  form_client_secret :: "pystr option"

record World =
  environ :: "string \<rightharpoonup> pystr"
  hkdf_sha256 :: "bytes \<Rightarrow> bytes \<Rightarrow> bytes"
  aesgcm_encrypt :: "bytes \<Rightarrow> bytes \<Rightarrow> bytes \<Rightarrow> bytes"
  aesgcm_decrypt :: "bytes \<Rightarrow> bytes \<Rightarrow> bytes \<Rightarrow> py_error + bytes"
  urandom_stream :: "nat \<Rightarrow> byte"
  http_get :: "string \<Rightarrow> py_error + HttpResponse"
  http_post :: "string \<Rightarrow> FormData \<Rightarrow> py_error + HttpResponse"
  timezone_now :: int

definition os_urandom :: "World \<Rightarrow> nat \<Rightarrow> nat \<Rightarrow> bytes \<times> nat" where
  "os_urandom W pos n = (map (urandom_stream W) [pos ..< pos + n], pos + n)"

definition get_master_key :: "World \<Rightarrow> py_error + pystr" where
  "get_master_key W =
     (let key = (case environ W ''APOLLOS_VAULT_MASTER_KEY'' of None \<Rightarrow> [] | Some k \<Rightarrow> k)
      in if key = [] \<or> length key < 32 then Inl ValueError else Inr key)"

definition derive_key :: "World \<Rightarrow> pystr \<Rightarrow> pystr \<Rightarrow> py_error + bytes" where
  "derive_key W master_key context =
     (case str_encode context of
        Inl e \<Rightarrow> Inl e
      | Inr info \<Rightarrow>
          (case str_encode master_key of
             Inl e \<Rightarrow> Inl e
           | Inr key_material \<Rightarrow> Inr (hkdf_sha256 W info key_material)))"

text \<open>
  \<open>encrypt_token\<close> returns the stored text, or the exception raised, together with the
  position of the random stream after the call.
\<close>

definition encrypt_token :: "World \<Rightarrow> nat \<Rightarrow> pystr \<Rightarrow> (py_error + pystr) \<times> nat" where
  "encrypt_token W pos plaintext =
     (case get_master_key W of
        Inl e \<Rightarrow> (Inl e, pos)
      | Inr master_key \<Rightarrow>
          (case derive_key W master_key (py_literal ''mcp-token-encryption'') of
             Inl e \<Rightarrow> (Inl e, pos)
           | Inr key \<Rightarrow>
               (case os_urandom W pos 12 of
                  (nonce, pos') \<Rightarrow>
                    (case str_encode plaintext of
                       Inl e \<Rightarrow> (Inl e, pos')
                     | Inr data \<Rightarrow>
                         (Inr (b64encode (nonce @ aesgcm_encrypt W key nonce data)), pos')))))"

definition decrypt_token :: "World \<Rightarrow> pystr \<Rightarrow> py_error + pystr" where
  "decrypt_token W encrypted =
     (case get_master_key W of
        Inl e \<Rightarrow> Inl e
      | Inr master_key \<Rightarrow>
          (case derive_key W master_key (py_literal ''mcp-token-encryption'') of
             Inl e \<Rightarrow> Inl e
           | Inr key \<Rightarrow>
               (case b64decode encrypted of
                  Inl e \<Rightarrow> Inl e
                | Inr data \<Rightarrow>
                    (case aesgcm_decrypt W key (take 12 data) (drop 12 data) of
                       Inl e \<Rightarrow> Inl e
                     | Inr plain \<Rightarrow> bytes_decode plain))))"

text \<open>A \<open>str\<close> without surrogates, the strings that have a UTF-8 encoding.\<close>

definition encodable :: "pystr \<Rightarrow> bool" where
  "encodable s = list_all (\<lambda>c. c < 0x110000 \<and> \<not> (0xD800 \<le> c \<and> c \<le> 0xDFFF)) s"

section \<open>Stored connections (\<open>McpUserConnection\<close>, \<open>McpServiceRegistry\<close>)\<close>

text \<open>
  The model classes are not among the sources; the records hold the fields the code
  reads and writes. A nullable column is an option, times are seconds.
\<close>

datatype ConnectionStatus = CONNECTED | ERROR | REVOKED

record McpServiceRegistry =
  service_pk :: nat
  service_name :: string
  server_url :: string
  oauth_discovery_url :: "string option"
  oauth_client_id :: "string option"
  oauth_client_secret :: "pystr option"

record McpUserConnection =
  conn_pk :: nat
  conn_user_id :: nat
  conn_service_id :: nat
  access_token :: "pystr option"
  refresh_token :: "pystr option"
  token_expires_at :: "int option"
  conn_status :: ConnectionStatus
  error_message :: "string option"

text \<open>Python's truth value of a nullable text: false for \<open>None\<close> and for the empty text.\<close>

fun truthy :: "'a list option \<Rightarrow> bool" where
  "truthy None = False"
| "truthy (Some s) = (s \<noteq> [])"

text \<open>
  \<open>connection.asave()\<close>: the row with the object's primary key is overwritten with the
  object; were there none, the object would be inserted.
\<close>

definition asave :: "McpUserConnection \<Rightarrow> McpUserConnection list \<Rightarrow> McpUserConnection list" where
  "asave c rows =
     (if \<exists>r \<in> set rows. conn_pk r = conn_pk c
      then map (\<lambda>r. if conn_pk r = conn_pk c then c else r) rows
      else rows @ [c])"

text \<open>The decimal digits of a number, as an f-string prints them.\<close>

definition digit_char :: "nat \<Rightarrow> char" where
  "digit_char d = ''0123456789'' ! d"

function show_nat :: "nat \<Rightarrow> string" where
  "show_nat n = (if n < 10 then [digit_char n] else show_nat (n div 10) @ [digit_char (n mod 10)])"
  by pat_completeness auto
termination
  by (relation "measure id") auto

declare show_nat.simps [simp del]

section \<open>Token refresh (\<open>processor/tools/mcp_oauth.py\<close>, \<open>utils/mcp_maintenance.py\<close>)\<close>

text \<open>
  The first half of \<open>refresh_access_token\<close>, up to the POST: the service of the
  connection, the decrypted refresh token, the token endpoint (from the discovery document
  when the service names one and it answers 200, else \<open>server_url/token\<close>), the decrypted
  client secret, and the form built from them. Each step can raise.
\<close>

definition token_endpoint_of :: "World \<Rightarrow> McpServiceRegistry \<Rightarrow> py_error + string" where
  "token_endpoint_of W service =
     (if truthy (oauth_discovery_url service) then
        (case http_get W (the (oauth_discovery_url service)) of
           Inl e \<Rightarrow> Inl e
         | Inr resp \<Rightarrow>
             if resp_status_code resp = 200 then
               (case resp_json resp of
                  None \<Rightarrow> Inl JSONDecodeError
                | Some metadata \<Rightarrow>
                    (case json_token_endpoint metadata of
                       None \<Rightarrow> Inr (server_url service @ ''/token'')
                     | Some endpoint \<Rightarrow> Inr endpoint))
             else Inr (server_url service @ ''/token''))
      else Inr (server_url service @ ''/token''))"

definition refresh_request ::
  "World \<Rightarrow> McpServiceRegistry list \<Rightarrow> McpUserConnection \<Rightarrow> py_error + (string \<times> FormData)" where
  "refresh_request W services connection =
     (case find (\<lambda>s. service_pk s = conn_service_id connection) services of
        None \<Rightarrow> Inl DoesNotExist
      | Some service \<Rightarrow>
          (case decrypt_token W (the (refresh_token connection)) of
             Inl e \<Rightarrow> Inl e
           | Inr refresh \<Rightarrow>
               (case token_endpoint_of W service of
                  Inl e \<Rightarrow> Inl e
                | Inr token_endpoint \<Rightarrow>
                    (case (if truthy (oauth_client_secret service)
                           then map_sum id Some (decrypt_token W (the (oauth_client_secret service)))
                           else Inr None) of
                       Inl e \<Rightarrow> Inl e
                     | Inr client_secret \<Rightarrow>
                         Inr (token_endpoint,
                              \<lparr>form_grant_type = ''refresh_token'',
                               form_refresh_token = refresh,
                               form_client_id = oauth_client_id service,
                               form_client_secret =
                                 (if truthy client_secret then client_secret else None)\<rparr>)))))"

text \<open>
  The success branch: the new tokens are encrypted and written on the connection object,
  which is saved at the end. An exception on the way leaves the stored row alone.
\<close>

definition store_refreshed_tokens ::
  "World \<Rightarrow> nat \<Rightarrow> McpUserConnection list \<Rightarrow> McpUserConnection \<Rightarrow> HttpResponse
     \<Rightarrow> (py_error + bool) \<times> McpUserConnection list \<times> nat" where
  "store_refreshed_tokens W pos rows connection resp =
     (case resp_json resp of
        None \<Rightarrow> (Inl JSONDecodeError, rows, pos)
      | Some tokens \<Rightarrow>
          (case json_access_token tokens of
             None \<Rightarrow> (Inl KeyError, rows, pos)
           | Some new_access \<Rightarrow>
               (case encrypt_token W pos new_access of
                  (Inl e, pos1) \<Rightarrow> (Inl e, rows, pos1)
                | (Inr enc_access, pos1) \<Rightarrow>
                    (case (case json_refresh_token tokens of
                             None \<Rightarrow> (Inr (refresh_token connection), pos1)
                           | Some new_refresh \<Rightarrow>
                               (case encrypt_token W pos1 new_refresh of
                                  (Inl e, pos2) \<Rightarrow> (Inl e, pos2)
                                | (Inr enc_refresh, pos2) \<Rightarrow> (Inr (Some enc_refresh), pos2))) of
                       (Inl e, pos2) \<Rightarrow> (Inl e, rows, pos2)
                     | (Inr stored_refresh, pos2) \<Rightarrow>
                         (Inr True,
                          asave (connection\<lparr>
                              access_token := Some enc_access,
                              refresh_token := stored_refresh,
                              token_expires_at :=
                                (case json_expires_in tokens of
                                   None \<Rightarrow> token_expires_at connection
                                 | Some seconds \<Rightarrow> Some (timezone_now W + seconds)),
                              conn_status := CONNECTED,
                              error_message := None\<rparr>) rows,
                          pos2)))))"

text \<open>
  \<open>refresh_access_token\<close>: the value returned or the exception raised, the stored rows
  afterwards, and the position of the random stream.
\<close>

definition refresh_access_token ::
  "World \<Rightarrow> nat \<Rightarrow> McpServiceRegistry list \<Rightarrow> McpUserConnection list \<Rightarrow> McpUserConnection
     \<Rightarrow> (py_error + bool) \<times> McpUserConnection list \<times> nat" where
  "refresh_access_token W pos services rows connection =
     (if \<not> truthy (refresh_token connection) then (Inr False, rows, pos)
      else case refresh_request W services connection of
        Inl e \<Rightarrow> (Inl e, rows, pos)
      | Inr (token_endpoint, data) \<Rightarrow>
          (case http_post W token_endpoint data of
             Inl e \<Rightarrow> (Inl e, rows, pos)
           | Inr resp \<Rightarrow>
               if resp_status_code resp \<noteq> 200 then
                 (Inr False,
                  asave (connection\<lparr>
                      conn_status := ERROR,
                      error_message :=
                        Some (''Refresh failed: '' @ show_nat (resp_status_code resp))\<rparr>) rows,
                  pos)
               else store_refreshed_tokens W pos rows connection resp))"

text \<open>
  The sweep. Its query selects the connected rows that expire within the hour and have a
  refresh token; the loop refreshes each selected object in turn and swallows whatever
  one of them raises (the log lines are left out).
\<close>

definition expiring_connections :: "int \<Rightarrow> McpUserConnection list \<Rightarrow> McpUserConnection list" where
  "expiring_connections now rows =
     filter (\<lambda>c. conn_status c = CONNECTED
                  \<and> (case token_expires_at c of None \<Rightarrow> False | Some t \<Rightarrow> t < now + 3600)
                  \<and> refresh_token c \<noteq> None) rows"

fun refresh_each ::
  "World \<Rightarrow> McpServiceRegistry list \<Rightarrow> McpUserConnection list \<Rightarrow> McpUserConnection list \<Rightarrow> nat
     \<Rightarrow> McpUserConnection list \<times> nat" where
  "refresh_each W services [] rows pos = (rows, pos)"
| "refresh_each W services (conn # expiring) rows pos =
     (case refresh_access_token W pos services rows conn of
        (outcome, rows', pos') \<Rightarrow> refresh_each W services expiring rows' pos')"

definition refresh_expiring_mcp_tokens ::
  "World \<Rightarrow> McpServiceRegistry list \<Rightarrow> McpUserConnection list \<Rightarrow> nat
     \<Rightarrow> McpUserConnection list \<times> nat" where
  "refresh_expiring_mcp_tokens W services rows pos =
     refresh_each W services (expiring_connections (timezone_now W) rows) rows pos"

text \<open>
  A run of sweeps, one per world in the list (each sweep meets its own clock, network and
  random bytes): the selections of the sweeps in order, and the rows at the end.
\<close>

fun run_sweeps ::
  "World list \<Rightarrow> McpServiceRegistry list \<Rightarrow> McpUserConnection list \<Rightarrow> nat
     \<Rightarrow> McpUserConnection list list \<times> McpUserConnection list" where
  "run_sweeps [] services rows pos = ([], rows)"
| "run_sweeps (W # Ws) services rows pos =
     (case refresh_expiring_mcp_tokens W services rows pos of
        (rows', pos') \<Rightarrow>
          (case run_sweeps Ws services rows' pos' of
             (selections, final) \<Rightarrow>
               (expiring_connections (timezone_now W) rows # selections, final)))"

text \<open>
  Two properties of a run: every stored row with primary key \<open>k\<close> has status \<open>ERROR\<close>,
  and no selection of a sweep holds a row with primary key \<open>k\<close>.
\<close>

definition stays_failed :: "nat \<Rightarrow> McpUserConnection list \<Rightarrow> bool" where
  "stays_failed k rows \<longleftrightarrow> (\<forall>r \<in> set rows. conn_pk r = k \<longrightarrow> conn_status r = ERROR)"

definition never_selected :: "nat \<Rightarrow> McpUserConnection list list \<Rightarrow> bool" where
  "never_selected k selections \<longleftrightarrow> (\<forall>sel \<in> set selections. \<forall>r \<in> set sel. conn_pk r \<noteq> k)"

section \<open>Key rotation (\<open>management/commands/rotate_vault_key.py\<close>)\<close>

record RotateOptions =
  opt_old_key :: pystr
  opt_dry_run :: bool

text \<open>
  What the command writes, one constructor per \<open>write\<close> call of the source: the three
  precondition errors on stderr, \<open>Found {total} connections to re-encrypt\<close>, the dry-run
  warning, \<open>Failed to rotate connection {conn.id}: {e}\<close> and the closing
  \<open>Rotated {success}/{total} connections ({errors} errors)\<close>.
\<close>

datatype OutputLine =
    ERROR_old_key_too_short
  | ERROR_new_key_not_set
  | ERROR_keys_are_the_same
  | Found_connections nat
  | WARNING_dry_run
  | ERROR_failed_to_rotate nat py_error
  | SUCCESS_rotated nat nat nat

text \<open>
  One field of one connection: decode, decrypt under the old derived key, decode the
  plaintext, and encrypt it again with \<open>encrypt_token\<close>, which reads the new key from the
  environment.
\<close>

definition rotate_field :: "World \<Rightarrow> bytes \<Rightarrow> nat \<Rightarrow> pystr \<Rightarrow> (py_error + pystr) \<times> nat" where
  "rotate_field W old_derived pos v =
     (case b64decode v of
        Inl e \<Rightarrow> (Inl e, pos)
      | Inr data \<Rightarrow>
          (case aesgcm_decrypt W old_derived (take 12 data) (drop 12 data) of
             Inl e \<Rightarrow> (Inl e, pos)
           | Inr plain \<Rightarrow>
               (case bytes_decode plain of
                  Inl e \<Rightarrow> (Inl e, pos)
                | Inr plaintext \<Rightarrow> encrypt_token W pos plaintext)))"

text \<open>
  The inner loop over \<open>access_token\<close> and \<open>refresh_token\<close>: an empty or null field is
  skipped. The result is the connection object with its new fields, or the exception.
\<close>

definition rotate_connection ::
  "World \<Rightarrow> bytes \<Rightarrow> nat \<Rightarrow> McpUserConnection \<Rightarrow> (py_error + McpUserConnection) \<times> nat" where
  "rotate_connection W old_derived pos conn =
     (case (if truthy (access_token conn)
            then (case rotate_field W old_derived pos (the (access_token conn)) of
                    (Inl e, pos1) \<Rightarrow> (Inl e, pos1)
                  | (Inr v, pos1) \<Rightarrow> (Inr (conn\<lparr>access_token := Some v\<rparr>), pos1))
            else (Inr conn, pos)) of
        (Inl e, pos1) \<Rightarrow> (Inl e, pos1)
      | (Inr conn1, pos1) \<Rightarrow>
          if truthy (refresh_token conn1)
          then (case rotate_field W old_derived pos1 (the (refresh_token conn1)) of
                  (Inl e, pos2) \<Rightarrow> (Inl e, pos2)
                | (Inr v, pos2) \<Rightarrow> (Inr (conn1\<lparr>refresh_token := Some v\<rparr>), pos2))
          else (Inr conn1, pos1))"

text \<open>\<open>conn.save(update_fields=["access_token", "refresh_token"])\<close>\<close>

definition save_tokens :: "McpUserConnection \<Rightarrow> McpUserConnection list \<Rightarrow> McpUserConnection list" where
  "save_tokens c rows =
     map (\<lambda>r. if conn_pk r = conn_pk c
               then r\<lparr>access_token := access_token c, refresh_token := refresh_token c\<rparr>
               else r) rows"

record RotateState =
  rot_rows :: "McpUserConnection list"
  rot_success :: nat
  rot_errors :: nat
  rot_output :: "OutputLine list"
  rot_pos :: nat

fun rotate_loop :: "World \<Rightarrow> bytes \<Rightarrow> McpUserConnection list \<Rightarrow> RotateState \<Rightarrow> RotateState" where
  "rotate_loop W old_derived [] st = st"
| "rotate_loop W old_derived (conn # connections) st =
     rotate_loop W old_derived connections
       (case rotate_connection W old_derived (rot_pos st) conn of
          (Inr conn', pos') \<Rightarrow>
            st\<lparr>rot_rows := save_tokens conn' (rot_rows st),
                rot_success := rot_success st + 1, rot_pos := pos'\<rparr>
        | (Inl e, pos') \<Rightarrow>
            st\<lparr>rot_errors := rot_errors st + 1,
                rot_output := rot_output st @ [ERROR_failed_to_rotate (conn_pk conn) e],
                rot_pos := pos'\<rparr>)"

text \<open>
  \<open>Command.handle\<close>: the exception the command dies of, if any, and the rows, the output
  and the position of the random stream at the end.
\<close>

definition connections_to_rotate :: "McpUserConnection list \<Rightarrow> McpUserConnection list" where
  "connections_to_rotate rows =
     filter (\<lambda>c. access_token c \<noteq> Some [] \<and> access_token c \<noteq> None) rows"

definition handle ::
  "World \<Rightarrow> nat \<Rightarrow> RotateOptions \<Rightarrow> McpUserConnection list \<Rightarrow> py_error option \<times> RotateState" where
  "handle W pos options rows =
     (let old_key = opt_old_key options;
          dry_run = opt_dry_run options;
          start = \<lparr>rot_rows = rows, rot_success = 0, rot_errors = 0, rot_output = [], rot_pos = pos\<rparr>
      in if length old_key < 32
         then (None, start\<lparr>rot_output := [ERROR_old_key_too_short]\<rparr>)
         else
           (let new_key = (case environ W ''APOLLOS_VAULT_MASTER_KEY'' of None \<Rightarrow> [] | Some k \<Rightarrow> k)
            in if new_key = [] \<or> length new_key < 32
               then (None, start\<lparr>rot_output := [ERROR_new_key_not_set]\<rparr>)
               else if old_key = new_key
               then (None, start\<lparr>rot_output := [ERROR_keys_are_the_same]\<rparr>)
               else
                 (let connections = connections_to_rotate rows;
                      total = length connections;
                      found = start\<lparr>rot_output := [Found_connections total]\<rparr>
                  in if dry_run
                     then (None, found\<lparr>rot_output := rot_output found @ [WARNING_dry_run]\<rparr>)
                     else
                       (case derive_key W old_key (py_literal ''mcp-token-encryption'') of
                          Inl e \<Rightarrow> (Some e, found)
                        | Inr old_derived \<Rightarrow>
                            (let done = rotate_loop W old_derived connections found
                             in (None,
                                 done\<lparr>rot_output := rot_output done
                                         @ [SUCCESS_rotated (rot_success done) total
                                              (rot_errors done)]\<rparr>))))))"

text \<open>
  What the \<open>cryptography\<close> package promises and the code relies on: the derived key has
  32 bytes, and decrypting what was encrypted under the same 32-byte key and 12-byte nonce
  gives the data back.
\<close>

definition cryptography_contract :: "World \<Rightarrow> bool" where
  "cryptography_contract W \<longleftrightarrow>
     (\<forall>info key_material. length (hkdf_sha256 W info key_material) = 32)
     \<and> (\<forall>key nonce data. length key = 32 \<and> length nonce = 12 \<longrightarrow>
            aesgcm_decrypt W key nonce (aesgcm_encrypt W key nonce data) = Inr data)"

section \<open>Sample data\<close>

definition demo_team :: Team where
  "demo_team = \<lparr>team_pk = 1, team_slug = ''eng'', team_name = ''Engineering''\<rparr>"

definition demo_admin :: ApollosUser where
  "demo_admin = \<lparr>user_pk = 1, is_org_admin = True, is_staff = False\<rparr>"

definition demo_lead :: ApollosUser where
  "demo_lead = \<lparr>user_pk = 2, is_org_admin = False, is_staff = False\<rparr>"

definition demo_outsider :: ApollosUser where
  "demo_outsider = \<lparr>user_pk = 3, is_org_admin = False, is_staff = False\<rparr>"

definition demo_memberships :: "TeamMembership list" where
  "demo_memberships = [\<lparr>membership_user = 2, membership_team = 1, membership_role = ''team_lead''\<rparr>]"

definition demo_team_entry :: Entry where
  "demo_team_entry = \<lparr>entry_pk = 10, entry_user = Some 2, entry_agent = None,
     entry_visibility = ''team'', entry_team = Some 1, entry_file_path = ''notes.md'',
     entry_shared_by = None\<rparr>"

definition demo_private_entry :: Entry where
  "demo_private_entry = \<lparr>entry_pk = 11, entry_user = Some 2, entry_agent = None,
     entry_visibility = ''private'', entry_team = None, entry_file_path = ''diary.md'',
     entry_shared_by = None\<rparr>"

definition demo_org_entry :: Entry where
  "demo_org_entry = \<lparr>entry_pk = 12, entry_user = Some 2, entry_agent = None,
     entry_visibility = ''org'', entry_team = None, entry_file_path = ''handbook.md'',
     entry_shared_by = None\<rparr>"

definition demo_managed_entry :: Entry where
  "demo_managed_entry = \<lparr>entry_pk = 13, entry_user = None, entry_agent = None,
     entry_visibility = ''org'', entry_team = None, entry_file_path = ''policy.md'',
     entry_shared_by = None\<rparr>"

definition demo_admin_org_entry :: Entry where
  "demo_admin_org_entry = \<lparr>entry_pk = 14, entry_user = Some 1, entry_agent = None,
     entry_visibility = ''org'', entry_team = None, entry_file_path = ''handbook.md'',
     entry_shared_by = None\<rparr>"

definition demo_db :: Database where
  "demo_db = \<lparr>db_teams = [demo_team], db_memberships = demo_memberships,
     db_entries = [demo_private_entry, demo_org_entry, demo_admin_org_entry]\<rparr>"

text \<open>
  A stand-in for the outside world, to run the vault on: a 32-character master key, a key
  derivation that pads and cuts to 32 bytes, and a cipher that appends a 16-byte tag made
  of key and nonce and checks it on the way back.
\<close>

definition demo_key :: pystr where
  "demo_key = py_literal ''0123456789abcdef0123456789abcdef''"

text \<open>A 32-character key as the environment gives it for 32 bytes \<open>0xFF\<close>: lone surrogates.\<close>

definition demo_surrogate_key :: pystr where
  "demo_surrogate_key = replicate 32 0xDCFF"

definition demo_world :: World where
  "demo_world = \<lparr>
     environ = [''APOLLOS_VAULT_MASTER_KEY'' \<mapsto> demo_key],
     hkdf_sha256 = (\<lambda>info key_material. take 32 (key_material @ replicate 32 0)),
     aesgcm_encrypt = (\<lambda>key nonce data. data @ take 16 (key @ nonce)),
     aesgcm_decrypt = (\<lambda>key nonce data.
        if 16 \<le> length data \<and> drop (length data - 16) data = take 16 (key @ nonce)
        then Inr (take (length data - 16) data) else Inl InvalidTag),
     urandom_stream = (\<lambda>i. of_nat i),
     http_get = (\<lambda>url. Inr \<lparr>resp_status_code = 404, resp_json = None\<rparr>),
     http_post = (\<lambda>url form. Inr \<lparr>resp_status_code = 401, resp_json = None\<rparr>),
     timezone_now = 1000\<rparr>"

text \<open>
  A service without discovery document or client secret, an earlier master key, and two
  stored connections: one connected, about to expire, whose refresh token was encrypted
  under the current key, and one revoked with its tokens cleared.
\<close>

definition demo_old_key :: pystr where
  "demo_old_key = py_literal ''fedcba9876543210fedcba9876543210''"

definition demo_service :: McpServiceRegistry where
  "demo_service = \<lparr>service_pk = 3, service_name = ''tracker'',
     server_url = ''https://mcp.example'', oauth_discovery_url = None,
     oauth_client_id = Some ''apollos'', oauth_client_secret = None\<rparr>"

definition demo_refresh_token :: pystr where
  "demo_refresh_token =
     (case fst (encrypt_token demo_world 0 (py_literal ''refresh-1'')) of
        Inl e \<Rightarrow> [] | Inr enc \<Rightarrow> enc)"

definition demo_expiring_connection :: McpUserConnection where
  "demo_expiring_connection = \<lparr>conn_pk = 7, conn_user_id = 2, conn_service_id = 3,
     access_token = Some (py_literal ''QUJD''), refresh_token = Some demo_refresh_token,
     token_expires_at = Some 2000, conn_status = CONNECTED, error_message = None\<rparr>"

definition demo_empty_connection :: McpUserConnection where
  "demo_empty_connection = \<lparr>conn_pk = 8, conn_user_id = 3, conn_service_id = 3,
     access_token = Some [], refresh_token = None,
     token_expires_at = None, conn_status = REVOKED, error_message = None\<rparr>"

section \<open>Properties of role resolution\<close>

lemma role_level_values:
  "role_level ''member'' = 0" "role_level ''team_lead'' = 1" "role_level ''admin'' = 2"
  by (simp_all add: role_level_def ROLE_HIERARCHY_def)

lemma role_level_unknown:
  "r \<noteq> ''member'' \<Longrightarrow> r \<noteq> ''team_lead'' \<Longrightarrow> r \<noteq> ''admin'' \<Longrightarrow> role_level r = 0"
  by (simp add: role_level_def ROLE_HIERARCHY_def)

text \<open>
  C3. \<open>require_team_role\<close>: an unauthenticated caller gets 401; for an authenticated
  caller a missing team gives 404 whatever the memberships are (the lookup comes before any
  role check); an org admin or staff user gets \<open>(user, team)\<close> on every existing team, no
  membership row needed; otherwise a member with role \<open>r\<close> succeeds exactly when the level
  of \<open>r\<close> is at least the level of \<open>min_role\<close> and gets 403 "Requires ... role or higher"
  if not, and a non-member of an existing team gets 403, not 404. A \<open>team_lead\<close> reaches
  the levels of \<open>member\<close> and \<open>team_lead\<close>, not that of \<open>admin\<close>.
\<close>

theorem require_team_role_outcomes:
  "require_team_role teams ms UnauthenticatedUser slug min_role
     = Inl (HTTPException 401 ''Authentication required'')
   \<and> (team_by_slug teams slug = None \<longrightarrow>
        require_team_role teams ms (AuthenticatedUser u) slug min_role
          = Inl (HTTPException 404 ''Team not found''))
   \<and> (team_by_slug teams slug = Some t \<and> (is_org_admin u \<or> is_staff u) \<longrightarrow>
        require_team_role teams ms (AuthenticatedUser u) slug min_role = Inr (u, t))
   \<and> (team_by_slug teams slug = Some t \<and> \<not> is_org_admin u \<and> \<not> is_staff u
        \<and> get_user_role_in_team ms u t = Some r \<longrightarrow>
        require_team_role teams ms (AuthenticatedUser u) slug min_role
          = (if role_level min_role \<le> role_level r then Inr (u, t)
             else Inl (HTTPException 403 (''Requires '' @ min_role @ '' role or higher''))))
   \<and> (team_by_slug teams slug = Some t \<and> \<not> is_org_admin u \<and> \<not> is_staff u
        \<and> get_user_role_in_team ms u t = None \<longrightarrow>
        require_team_role teams ms (AuthenticatedUser u) slug min_role
          = Inl (HTTPException 403 ''Not a member of this team''))
   \<and> role_level ''member'' \<le> role_level ''team_lead''
   \<and> role_level ''team_lead'' \<le> role_level ''team_lead''
   \<and> \<not> role_level ''admin'' \<le> role_level ''team_lead''"
  by (auto simp add: require_team_role_def Let_def role_level_values)

lemma demo_lookup:
  "team_by_slug [demo_team] ''eng'' = Some demo_team"
  "team_by_slug [demo_team] ''ops'' = None"
  "get_user_role_in_team demo_memberships demo_lead demo_team = Some ''team_lead''"
  "get_user_role_in_team demo_memberships demo_outsider demo_team = None"
  "get_user_role_in_team demo_memberships demo_admin demo_team = None"
  by (simp_all add: team_by_slug_def get_user_role_in_team_def demo_team_def demo_memberships_def
        demo_lead_def demo_outsider_def demo_admin_def)

lemma demo_flags:
  "is_org_admin demo_admin" "\<not> is_org_admin demo_lead" "\<not> is_staff demo_lead"
  "\<not> is_org_admin demo_outsider" "\<not> is_staff demo_outsider"
  by (simp_all add: demo_admin_def demo_lead_def demo_outsider_def)

theorem require_team_role_outcomes_witness:
  "team_by_slug [demo_team] ''ops'' = None
   \<and> require_team_role [demo_team] demo_memberships (AuthenticatedUser demo_lead) ''ops'' ''member''
       = Inl (HTTPException 404 ''Team not found'')
   \<and> team_by_slug [demo_team] ''eng'' = Some demo_team
   \<and> (is_org_admin demo_admin \<or> is_staff demo_admin)
   \<and> get_user_role_in_team demo_memberships demo_admin demo_team = None
   \<and> require_team_role [demo_team] demo_memberships (AuthenticatedUser demo_admin) ''eng'' ''admin''
       = Inr (demo_admin, demo_team)
   \<and> \<not> is_org_admin demo_lead \<and> \<not> is_staff demo_lead
   \<and> get_user_role_in_team demo_memberships demo_lead demo_team = Some ''team_lead''
   \<and> require_team_role [demo_team] demo_memberships (AuthenticatedUser demo_lead) ''eng'' ''member''
       = Inr (demo_lead, demo_team)
   \<and> require_team_role [demo_team] demo_memberships (AuthenticatedUser demo_lead) ''eng'' ''team_lead''
       = Inr (demo_lead, demo_team)
   \<and> require_team_role [demo_team] demo_memberships (AuthenticatedUser demo_lead) ''eng'' ''admin''
       = Inl (HTTPException 403 ''Requires admin role or higher'')
   \<and> \<not> is_org_admin demo_outsider \<and> \<not> is_staff demo_outsider
   \<and> get_user_role_in_team demo_memberships demo_outsider demo_team = None
   \<and> require_team_role [demo_team] demo_memberships (AuthenticatedUser demo_outsider) ''eng'' ''member''
       = Inl (HTTPException 403 ''Not a member of this team'')"
  using
    require_team_role_outcomes [of "[demo_team]" demo_memberships "''ops''" "''member''" demo_lead]
    require_team_role_outcomes [of "[demo_team]" demo_memberships "''eng''" "''admin''" demo_admin demo_team]
    require_team_role_outcomes [of "[demo_team]" demo_memberships "''eng''" "''member''" demo_lead demo_team "''team_lead''"]
    require_team_role_outcomes [of "[demo_team]" demo_memberships "''eng''" "''team_lead''" demo_lead demo_team "''team_lead''"]
    require_team_role_outcomes [of "[demo_team]" demo_memberships "''eng''" "''admin''" demo_lead demo_team "''team_lead''"]
    require_team_role_outcomes [of "[demo_team]" demo_memberships "''eng''" "''member''" demo_outsider demo_team]
  by (simp add: demo_lookup role_level_values demo_flags)

text \<open>
  C10. A \<open>min_role\<close> outside \<open>member\<close>, \<open>team_lead\<close>, \<open>admin\<close> has level 0 in the
  hierarchy lookup, so every authenticated user who is neither org admin nor staff and
  holds any membership of the existing team passes the check.
\<close>

theorem require_team_role_unknown_min_role:
  assumes "\<not> is_org_admin u" and "\<not> is_staff u"
    and "team_by_slug teams slug = Some t"
    and "get_user_role_in_team ms u t = Some r"
    and "min_role \<notin> {''member'', ''team_lead'', ''admin''}"
  shows "role_level min_role = 0
    \<and> require_team_role teams ms (AuthenticatedUser u) slug min_role = Inr (u, t)"
  using assms by (simp add: require_team_role_def Let_def role_level_unknown)

theorem require_team_role_unknown_min_role_witness:
  "\<not> is_org_admin demo_lead \<and> \<not> is_staff demo_lead
   \<and> team_by_slug [demo_team] ''eng'' = Some demo_team
   \<and> get_user_role_in_team demo_memberships demo_lead demo_team = Some ''team_lead''
   \<and> ''admins'' \<notin> {''member'', ''team_lead'', ''admin''}
   \<and> require_team_role [demo_team] demo_memberships (AuthenticatedUser demo_lead) ''eng'' ''admins''
       = Inr (demo_lead, demo_team)"
  using require_team_role_unknown_min_role
    [of demo_lead "[demo_team]" "''eng''" demo_team demo_memberships "''team_lead''" "''admins''"]
  by (simp add: demo_lookup demo_flags)

lemmas vis_defs = Visibility_PRIVATE_def Visibility_TEAM_def Visibility_ORGANIZATION_def

lemma has_membership_iff:
  "has_membership ms u T \<longleftrightarrow> T \<in> set (get_user_team_ids ms (Some u))"
  by (auto simp add: has_membership_def get_user_team_ids_def list_ex_iff)

section \<open>Properties of the access predicate\<close>

text \<open>
  C1 as stated fails on the predicate: an org admin without a membership in the team is
  not matched by the team clause, which looks at membership rows only.
\<close>

theorem team_entry_counterexample:
  "entry_visibility demo_team_entry = Visibility_TEAM \<and> entry_team demo_team_entry = Some 1
   \<and> \<not> (matches (buildFilter [] (Some demo_admin) None) demo_team_entry
          \<longleftrightarrow> (has_membership [] demo_admin 1 \<or> is_org_admin demo_admin \<or> is_staff demo_admin))"
  by (simp add: buildFilter_def get_user_team_ids_def has_membership_def demo_team_entry_def
        demo_admin_def vis_defs)

text \<open>
  C1, amended. For every row with team visibility that references team \<open>T\<close> and every user
  \<open>u\<close>, the predicate built for \<open>u\<close> matches the row exactly when \<open>u\<close> has a membership
  row in \<open>T\<close>, whatever its role; the org-admin and staff flags play no part.
\<close>

theorem team_entry_matches_members:
  assumes "entry_visibility e = Visibility_TEAM" and "entry_team e = Some T"
  shows "matches (buildFilter ms (Some u) None) e \<longleftrightarrow> has_membership ms u T"
  using assms by (simp add: buildFilter_def has_membership_iff vis_defs)

theorem team_entry_matches_members_witness:
  "entry_visibility demo_team_entry = Visibility_TEAM \<and> entry_team demo_team_entry = Some 1
   \<and> has_membership demo_memberships demo_lead 1
   \<and> matches (buildFilter demo_memberships (Some demo_lead) None) demo_team_entry
   \<and> \<not> has_membership demo_memberships demo_outsider 1
   \<and> \<not> matches (buildFilter demo_memberships (Some demo_outsider) None) demo_team_entry"
  using team_entry_matches_members [of demo_team_entry 1 demo_memberships demo_lead]
    team_entry_matches_members [of demo_team_entry 1 demo_memberships demo_outsider]
  by (simp add: has_membership_def demo_memberships_def demo_lead_def demo_outsider_def
        demo_team_entry_def vis_defs)

text \<open>
  C2 as stated fails for the anonymous caller: with neither user nor agent the predicate
  matches nothing, so an organization-wide row without an owner is not matched either.
\<close>

theorem anonymous_org_entry_counterexample:
  "entry_agent demo_managed_entry = None
   \<and> entry_visibility demo_managed_entry = Visibility_ORGANIZATION
   \<and> \<not> (matches (buildFilter demo_memberships None None) demo_managed_entry
          \<longleftrightarrow> entry_user demo_managed_entry = None)"
  by (simp add: buildFilter_def demo_managed_entry_def vis_defs)

text \<open>
  C2, amended. A private row is matched by the predicate built for \<open>u\<close> exactly when \<open>u\<close>
  is its owning user; an organization-wide row is matched by the predicate of every
  authenticated user, and the predicate built for no user and no agent does not match it.
\<close>

theorem private_and_org_entry_matches:
  "(entry_visibility e = Visibility_PRIVATE \<longrightarrow>
            (matches (buildFilter ms (Some u) None) e \<longleftrightarrow> entry_user e = Some (user_pk u)))
       \<and> (entry_visibility e = Visibility_ORGANIZATION \<longrightarrow>
            matches (buildFilter ms (Some u) None) e \<and> \<not> matches (buildFilter ms None None) e)"
  by (simp add: buildFilter_def vis_defs)


theorem private_and_org_entry_matches_witness:
  "entry_visibility demo_private_entry = Visibility_PRIVATE
   \<and> entry_user demo_private_entry = Some (user_pk demo_lead)
   \<and> matches (buildFilter demo_memberships (Some demo_lead) None) demo_private_entry
   \<and> entry_user demo_private_entry \<noteq> Some (user_pk demo_outsider)
   \<and> \<not> matches (buildFilter demo_memberships (Some demo_outsider) None) demo_private_entry
   \<and> entry_visibility demo_org_entry = Visibility_ORGANIZATION
   \<and> matches (buildFilter demo_memberships (Some demo_outsider) None) demo_org_entry
   \<and> \<not> matches (buildFilter demo_memberships None None) demo_org_entry"
  using private_and_org_entry_matches [of demo_private_entry demo_memberships demo_lead]
    private_and_org_entry_matches [of demo_private_entry demo_memberships demo_outsider]
    private_and_org_entry_matches [of demo_org_entry demo_memberships demo_outsider]
  by (simp add: demo_private_entry_def demo_org_entry_def demo_lead_def demo_outsider_def vis_defs)

section \<open>Properties of deleting and sharing\<close>

lemma check_delete_denies_org:
  assumes "\<exists>e \<in> set entries_qs. entry_visibility e = Visibility_ORGANIZATION"
    and "\<not> is_org_admin u" and "\<not> is_staff u"
  shows "check_delete_permission_for_entries teams ms u entries_qs
           = Some (HTTPException 403 ''Only admins can delete org-wide content'')"
proof -
  from assms(1) have "filter (\<lambda>e. entry_visibility e = Visibility_ORGANIZATION) entries_qs \<noteq> []"
    by (auto simp add: filter_empty_conv)
  with assms(2,3) show ?thesis
    by (simp add: check_delete_permission_for_entries_def Let_def)
qed

text \<open>
  C4. If one of the caller's rows named by the request is organization-wide and the caller
  is neither org admin nor staff, \<open>delete_content_file\<close> answers 403 and the store is the
  one it started from, whatever the deleting adapters would have done: no row of the
  batch is deleted, the caller's own private rows included.
\<close>

theorem delete_denied_for_whole_batch:
  assumes "e \<in> set (db_entries db)" and "entry_user e = Some (user_pk u)"
    and "entry_file_path e \<in> set files"
    and "entry_visibility e = Visibility_ORGANIZATION"
    and "\<not> is_org_admin u" and "\<not> is_staff u"
  shows "delete_content_file adelete_entries_by_filenames adelete_file_object_by_name db u files
           = (db, Inl (HTTPException 403 ''Only admins can delete org-wide content''))"
proof -
  let ?qs = "filter (\<lambda>e. entry_user e = Some (user_pk u) \<and> entry_file_path e \<in> set files)
               (db_entries db)"
  from assms(1-4) have "\<exists>e \<in> set ?qs. entry_visibility e = Visibility_ORGANIZATION"
    by auto
  then have "check_delete_permission_for_entries (db_teams db) (db_memberships db) u ?qs
               = Some (HTTPException 403 ''Only admins can delete org-wide content'')"
    using assms(5,6) by (rule check_delete_denies_org)
  then show ?thesis
    by (simp add: delete_content_file_def Let_def)
qed

theorem delete_denied_for_whole_batch_witness:
  "demo_org_entry \<in> set (db_entries demo_db)
   \<and> entry_user demo_org_entry = Some (user_pk demo_lead)
   \<and> entry_file_path demo_org_entry \<in> set [''handbook.md'', ''diary.md'']
   \<and> entry_visibility demo_org_entry = Visibility_ORGANIZATION
   \<and> \<not> is_org_admin demo_lead \<and> \<not> is_staff demo_lead
   \<and> delete_content_file adelete_entries_by_filenames_model adelete_file_object_by_name_model
        demo_db demo_lead [''handbook.md'', ''diary.md'']
       = (demo_db, Inl (HTTPException 403 ''Only admins can delete org-wide content''))
   \<and> delete_content_file adelete_entries_by_filenames_model adelete_file_object_by_name_model
        demo_db demo_lead [''diary.md'']
       = (demo_db\<lparr>db_entries := [demo_org_entry, demo_admin_org_entry]\<rparr>,
          Inr \<lparr>delete_status = ''ok'', deleted_count = Some 1\<rparr>)"
proof -
  have own: "delete_content_file adelete_entries_by_filenames_model adelete_file_object_by_name_model
        demo_db demo_lead [''diary.md'']
       = (demo_db\<lparr>db_entries := [demo_org_entry, demo_admin_org_entry]\<rparr>,
          Inr \<lparr>delete_status = ''ok'', deleted_count = Some 1\<rparr>)"
    by (simp add: delete_content_file_def check_delete_permission_for_entries_def
          adelete_entries_by_filenames_model_def adelete_file_object_by_name_model_def
          demo_db_def demo_private_entry_def demo_org_entry_def demo_admin_org_entry_def
          demo_lead_def vis_defs Let_def)
  have pre: "demo_org_entry \<in> set (db_entries demo_db)"
    "entry_user demo_org_entry = Some (user_pk demo_lead)"
    "entry_file_path demo_org_entry \<in> set [''handbook.md'', ''diary.md'']"
    "entry_visibility demo_org_entry = Visibility_ORGANIZATION"
    by (simp_all add: demo_db_def demo_org_entry_def demo_lead_def vis_defs)
  from delete_denied_for_whole_batch [OF pre demo_flags(2) demo_flags(3)] pre own demo_flags
  show ?thesis by simp
qed

text \<open>
  C5. \<open>share_content\<close> writes the requested visibility on every row of the caller at the
  file path without looking at the current one. Here an org admin shares an
  organization-wide row of theirs to a team: the request is accepted and the row ends with
  team visibility, below the visibility it had.
\<close>

theorem share_content_downgrades_org_entry:
  "share_content demo_db demo_admin
     \<lparr>body_file_path = Some ''handbook.md'', body_visibility = Some ''team'',
      body_team_slug = Some ''eng''\<rparr>
   = (demo_db\<lparr>db_entries :=
        [demo_private_entry, demo_org_entry,
         demo_admin_org_entry\<lparr>entry_visibility := Visibility_TEAM, entry_shared_by := Some 1,
                                entry_team := Some 1\<rparr>]\<rparr>,
      Inr \<lparr>share_status = ''shared'', share_count = 1, share_visibility = ''team''\<rparr>)
   \<and> entry_visibility demo_admin_org_entry = Visibility_ORGANIZATION
   \<and> visibility_rank Visibility_TEAM < visibility_rank Visibility_ORGANIZATION"
  by (simp add: share_content_def share_apply_def share_update_def team_by_slug_def
        demo_db_def demo_team_def demo_memberships_def demo_admin_def
        demo_private_entry_def demo_org_entry_def demo_admin_org_entry_def
        visibility_rank_def vis_defs Let_def)

section \<open>Properties of the vault\<close>

subsection \<open>Base64 decodes what it encoded\<close>

lemma b64_regroup_first: fixes x y :: nat assumes "y < 256"
  shows "x div 4 * 4 + (x mod 4 * 16 + y div 16) div 16 = x"
proof -
  have "y div 16 < 16" using assms by simp
  then have "(x mod 4 * 16 + y div 16) div 16 = x mod 4" by simp
  then show ?thesis by simp
qed

lemma b64_regroup_second: fixes x y z :: nat assumes "y < 256" "z < 256"
  shows "(x mod 4 * 16 + y div 16) mod 16 * 16 + (y mod 16 * 4 + z div 64) div 4 = y"
proof -
  have "y div 16 < 16" using assms by simp
  then have a: "(x mod 4 * 16 + y div 16) mod 16 = y div 16" by simp
  have "z div 64 < 4" using assms by simp
  then have b: "(y mod 16 * 4 + z div 64) div 4 = y mod 16" by simp
  show ?thesis unfolding a b by simp
qed

lemma b64_regroup_third: fixes y z :: nat assumes "z < 256"
  shows "(y mod 16 * 4 + z div 64) mod 4 * 64 + z mod 64 = z"
proof -
  have "z div 64 < 4" using assms by simp
  then have a: "(y mod 16 * 4 + z div 64) mod 4 = z div 64" by simp
  show ?thesis unfolding a by simp
qed

lemma b64_regroup_bounds: fixes x y z :: nat assumes "x < 256" "y < 256" "z < 256"
  shows "x div 4 < 64" and "x mod 4 * 16 + y div 16 < 64"
    and "y mod 16 * 4 + z div 64 < 64" and "z mod 64 < 64"
    and "x mod 4 * 16 < 64" and "y mod 16 * 4 < 64" 
  using assms by arith+


lemma b64_index_char: "i < 64 \<Longrightarrow> b64_index (b64_char i) = Some i"
  by (auto simp add: b64_char_def b64_index_def)

lemma b64_char_not_pad: "i < 64 \<Longrightarrow> b64_char i \<noteq> 61"
  by (auto simp add: b64_char_def)

lemma b64_char_ascii: "i < 64 \<Longrightarrow> b64_char i < 128"
  by (auto simp add: b64_char_def)

lemma unat_byte_less: "unat (a :: byte) < 256"
  using unsigned_less [of a, where 'a = nat] by simp

lemma a2b_base64_group:
  assumes "i1 < 64" "i2 < 64" "i3 < 64" "i4 < 64"
  shows "a2b_base64 0 leftchar pads (b64_char i1 # b64_char i2 # b64_char i3 # b64_char i4 # rest)
           = emit (of_nat (i1 * 4 + i2 div 16))
               (emit (of_nat (i2 mod 16 * 16 + i3 div 4))
                  (emit (of_nat (i3 mod 4 * 64 + i4)) (a2b_base64 0 0 0 rest)))"
  using assms by (simp add: b64_index_char b64_char_not_pad)

lemma a2b_base64_padded2:
  assumes "i1 < 64" "i2 < 64" "i3 < 64"
  shows "a2b_base64 0 leftchar pads (b64_char i1 # b64_char i2 # b64_char i3 # 61 # rest)
           = Some [of_nat (i1 * 4 + i2 div 16), of_nat (i2 mod 16 * 16 + i3 div 4)]"
  using assms by (simp add: b64_index_char b64_char_not_pad emit_def)

lemma a2b_base64_padded1:
  assumes "i1 < 64" "i2 < 64"
  shows "a2b_base64 0 leftchar pads (b64_char i1 # b64_char i2 # 61 # 61 # rest)
           = Some [of_nat (i1 * 4 + i2 div 16)]"
  using assms by (simp add: b64_index_char b64_char_not_pad emit_def)

lemma a2b_base64_encode: "a2b_base64 0 0 0 (b64encode bs) = Some bs"
proof (induction bs rule: b64encode.induct)
  case 1
  show ?case by simp
next
  case (2 a)
  note bounds = b64_regroup_bounds [of "unat a" "unat a" "unat a", OF unat_byte_less unat_byte_less unat_byte_less]
  have "a2b_base64 0 0 0 (b64encode [a])
      = Some [of_nat (unat a div 4 * 4 + unat a mod 4 * 16 div 16)]"
    unfolding b64encode.simps by (rule a2b_base64_padded1 [OF bounds(1) bounds(5)])
  moreover have "unat a div 4 * 4 + unat a mod 4 * 16 div 16 = unat a"
    by simp
  ultimately have "a2b_base64 0 0 0 (b64encode [a]) = Some [of_nat (unat a)]"
    by (simp only:)
  then show ?case by simp
next
  case (3 a b)
  note bounds = b64_regroup_bounds [of "unat a" "unat b" "unat b", OF unat_byte_less unat_byte_less unat_byte_less]
  have "a2b_base64 0 0 0 (b64encode [a, b])
      = Some [of_nat (unat a div 4 * 4 + (unat a mod 4 * 16 + unat b div 16) div 16),
              of_nat ((unat a mod 4 * 16 + unat b div 16) mod 16 * 16 + unat b mod 16 * 4 div 4)]"
    unfolding b64encode.simps by (rule a2b_base64_padded2 [OF bounds(1) bounds(2) bounds(6)])
  moreover have "unat a div 4 * 4 + (unat a mod 4 * 16 + unat b div 16) div 16 = unat a"
    using unat_byte_less [of b] by (rule b64_regroup_first)
  moreover have "(unat a mod 4 * 16 + unat b div 16) mod 16 * 16 + unat b mod 16 * 4 div 4 = unat b"
    using b64_regroup_second [of "unat b" 0 "unat a"] unat_byte_less [of b] by simp
  ultimately have "a2b_base64 0 0 0 (b64encode [a, b]) = Some [of_nat (unat a), of_nat (unat b)]"
    by (simp only:)
  then show ?case by simp
next
  case (4 a b c rest)
  note bounds = b64_regroup_bounds [of "unat a" "unat b" "unat c", OF unat_byte_less unat_byte_less unat_byte_less]
  have "a2b_base64 0 0 0 (b64encode (a # b # c # rest))
      = emit (of_nat (unat a div 4 * 4 + (unat a mod 4 * 16 + unat b div 16) div 16))
          (emit (of_nat ((unat a mod 4 * 16 + unat b div 16) mod 16 * 16
                          + (unat b mod 16 * 4 + unat c div 64) div 4))
             (emit (of_nat ((unat b mod 16 * 4 + unat c div 64) mod 4 * 64 + unat c mod 64))
                (a2b_base64 0 0 0 (b64encode rest))))"
    unfolding b64encode.simps append_Cons append_Nil
    by (rule a2b_base64_group [OF bounds(1) bounds(2) bounds(3) bounds(4)])
  moreover have "unat a div 4 * 4 + (unat a mod 4 * 16 + unat b div 16) div 16 = unat a"
    using unat_byte_less [of b] by (rule b64_regroup_first)
  moreover have "(unat a mod 4 * 16 + unat b div 16) mod 16 * 16
      + (unat b mod 16 * 4 + unat c div 64) div 4 = unat b"
    using unat_byte_less [of b] unat_byte_less [of c] by (rule b64_regroup_second)
  moreover have "(unat b mod 16 * 4 + unat c div 64) mod 4 * 64 + unat c mod 64 = unat c"
    using unat_byte_less [of c] by (rule b64_regroup_third)
  ultimately have "a2b_base64 0 0 0 (b64encode (a # b # c # rest))
      = emit (of_nat (unat a)) (emit (of_nat (unat b)) (emit (of_nat (unat c))
          (a2b_base64 0 0 0 (b64encode rest))))"
    by (simp only:)
  then show ?case
    using 4 by (simp add: emit_def)
qed

lemma b64encode_chars:
  "c \<in> set (b64encode bs) \<Longrightarrow> c < 128 \<and> (b64_index c \<noteq> None \<or> c = 61)"
proof (induction bs arbitrary: c rule: b64encode.induct)
  case 1
  then show ?case by simp
next
  case (2 a)
  then show ?case
    using unat_byte_less [of a] b64_regroup_bounds [of "unat a" 0 0]
    by (auto simp add: b64_index_char b64_char_ascii)
next
  case (3 a b)
  then show ?case
    using unat_byte_less [of a] unat_byte_less [of b] b64_regroup_bounds [of "unat a" "unat b" 0]
    by (auto simp add: b64_index_char b64_char_ascii)
next
  case (4 a b c' rest)
  then show ?case
    using unat_byte_less [of a] unat_byte_less [of b] unat_byte_less [of c']
      b64_regroup_bounds [of "unat a" "unat b" "unat c'"]
    by (auto simp add: b64_index_char b64_char_ascii)
qed

lemma b64decode_b64encode: "b64decode (b64encode bs) = Inr bs"
proof -
  have "\<not> (\<exists>c \<in> set (b64encode bs). 128 \<le> c)"
    using b64encode_chars by fastforce
  then show ?thesis
    by (simp add: b64decode_def a2b_base64_encode)
qed

text \<open>
  The decoder on text that no encoder wrote: decoding stops at completed padding, a
  leading padding character and a line feed are skipped, a text that ends inside a group
  is \<open>binascii.Error\<close> and a non-ASCII character is \<open>ValueError\<close>.
\<close>

lemma a2b_base64_examples:
  "b64decode [81, 85, 73, 61, 81, 85, 74, 68] = Inr [65, 66]"
  "b64decode [61, 81, 85, 74, 68] = Inr [65, 66, 67]"
  "b64decode [81, 81, 61, 61, 81, 81, 61, 61] = Inr [65]"
  "b64decode [81, 85, 74, 68, 10] = Inr [65, 66, 67]"
  "b64decode [81, 85, 74] = Inl binascii_Error"
  "b64decode [81, 85, 74, 68, 233] = Inl ValueError"
  by (simp_all add: b64decode_def b64_index_def emit_def)


subsection \<open>UTF-8 decodes what it encoded\<close>

lemma unat_of_nat_byte: "n < 256 \<Longrightarrow> unat (of_nat n :: byte) = n"
  by (simp add: unat_of_nat)

lemma utf8_three_parts: "c div 4096 * 4096 + c div 64 mod 64 * 64 + c mod 64 = (c::nat)"
proof -
  have "c mod 4096 = 64 * (c div 64 mod 64) + c mod 64"
    using mod_mult2_eq [of c 64 64] by simp
  moreover have "c div 4096 * 4096 + c mod 4096 = c" by simp
  ultimately show ?thesis by simp
qed

lemma utf8_four_parts:
  "c div 262144 * 262144 + c div 4096 mod 64 * 4096 + c div 64 mod 64 * 64 + c mod 64 = (c::nat)"
proof -
  have a: "c mod 4096 = 64 * (c div 64 mod 64) + c mod 64"
    using mod_mult2_eq [of c 64 64] by simp
  have b: "c mod 262144 = 4096 * (c div 4096 mod 64) + c mod 4096"
    using mod_mult2_eq [of c 4096 64] by simp
  have "c div 262144 * 262144 + c mod 262144 = c" by simp
  with a b show ?thesis by simp
qed

lemma bytes_decode_encode_char:
  assumes "utf8_encode_char c = Some bs"
  shows "bytes_decode (bs @ rest) = prepend_char c (bytes_decode rest)"
proof -
  consider (one) "c < 0x80" | (two) "0x80 \<le> c" "c < 0x800"
    | (three) "0x800 \<le> c" "c < 0x10000" | (four) "0x10000 \<le> c"
    by linarith
  then show ?thesis
  proof cases
    case one
    then have "bs = [of_nat c]" using assms by (simp add: utf8_encode_char_def)
    moreover have "unat (of_nat c :: byte) = c" using one by (simp add: unat_of_nat_byte)
    ultimately show ?thesis using one by simp
  next
    case two
    then have bs: "bs = [of_nat (0xC0 + c div 64), of_nat (0x80 + c mod 64)]"
      using assms by (simp add: utf8_encode_char_def del: of_nat_add)
    have d: "2 \<le> c div 64" "c div 64 < 32" using two by simp_all
    have b0: "unat (of_nat (0xC0 + c div 64) :: byte) = 0xC0 + c div 64"
      using d by (intro unat_of_nat_byte) simp
    have b1: "unat (of_nat (0x80 + c mod 64) :: byte) = 0x80 + c mod 64"
      by (intro unat_of_nat_byte) simp
    show ?thesis
      unfolding bs using d by (simp add: b0 b1 is_continuation_def del: of_nat_add)
  next
    case three
    then have ns: "\<not> (0xD800 \<le> c \<and> c \<le> 0xDFFF)"
      using assms by (auto simp add: utf8_encode_char_def split: if_splits)
    from three ns have bs: "bs = [of_nat (0xE0 + c div 4096), of_nat (0x80 + c div 64 mod 64),
        of_nat (0x80 + c mod 64)]"
      using assms by (auto simp add: utf8_encode_char_def simp del: of_nat_add)
    have d: "c div 4096 < 16" using three by simp
    have b0: "unat (of_nat (0xE0 + c div 4096) :: byte) = 0xE0 + c div 4096"
      using d by (intro unat_of_nat_byte) simp
    have b1: "unat (of_nat (0x80 + c div 64 mod 64) :: byte) = 0x80 + c div 64 mod 64"
      by (intro unat_of_nat_byte) simp
    have b2: "unat (of_nat (0x80 + c mod 64) :: byte) = 0x80 + c mod 64"
      by (intro unat_of_nat_byte) simp
    show ?thesis
      unfolding bs using d three ns by (simp add: b0 b1 b2 is_continuation_def utf8_three_parts del: of_nat_add)
  next
    case four
    then have lt: "c < 0x110000"
      using assms by (auto simp add: utf8_encode_char_def split: if_splits)
    from four lt have bs: "bs = [of_nat (0xF0 + c div 262144), of_nat (0x80 + c div 4096 mod 64),
        of_nat (0x80 + c div 64 mod 64), of_nat (0x80 + c mod 64)]"
      using assms by (auto simp add: utf8_encode_char_def simp del: of_nat_add)
    have d: "c div 262144 < 5" using lt by simp
    have b0: "unat (of_nat (0xF0 + c div 262144) :: byte) = 0xF0 + c div 262144"
      using d by (intro unat_of_nat_byte) simp
    have b1: "unat (of_nat (0x80 + c div 4096 mod 64) :: byte) = 0x80 + c div 4096 mod 64"
      by (intro unat_of_nat_byte) simp
    have b2: "unat (of_nat (0x80 + c div 64 mod 64) :: byte) = 0x80 + c div 64 mod 64"
      by (intro unat_of_nat_byte) simp
    have b3: "unat (of_nat (0x80 + c mod 64) :: byte) = 0x80 + c mod 64"
      by (intro unat_of_nat_byte) simp
    show ?thesis
      unfolding bs using d four lt by (simp add: b0 b1 b2 b3 is_continuation_def utf8_four_parts del: of_nat_add)
  qed
qed

lemma encodable_char:
  "c < 0x110000 \<Longrightarrow> \<not> (0xD800 \<le> c \<and> c \<le> 0xDFFF) \<Longrightarrow> \<exists>bs. utf8_encode_char c = Some bs"
  by (simp add: utf8_encode_char_def)

lemma str_encode_decode:
  "encodable s \<Longrightarrow> \<exists>bs. str_encode s = Inr bs \<and> bytes_decode bs = Inr s"
proof (induction s)
  case Nil
  show ?case by simp
next
  case (Cons c cs)
  then obtain rest where rest: "str_encode cs = Inr rest" "bytes_decode rest = Inr cs"
    by (auto simp add: encodable_def)
  from Cons.prems obtain bs where bs: "utf8_encode_char c = Some bs"
    using encodable_char [of c] by (auto simp add: encodable_def)
  have "bytes_decode (bs @ rest) = Inr (c # cs)"
    using bytes_decode_encode_char [OF bs, of rest] rest by (simp add: prepend_char_def)
  with bs rest show ?case by simp
qed

text \<open>The only failure of the encoder is \<open>UnicodeEncodeError\<close>, and it fails on exactly the
  strings that are not \<open>encodable\<close>.\<close>

lemma str_encode_encodable: "str_encode s = Inr bs \<Longrightarrow> encodable s"
proof (induction s arbitrary: bs)
  case Nil
  show ?case by (simp add: encodable_def)
next
  case (Cons c cs)
  then show ?case
    by (auto simp add: encodable_def utf8_encode_char_def split: option.splits sum.splits if_splits)
qed

lemma str_encode_error: "str_encode s = Inl e \<Longrightarrow> e = UnicodeEncodeError"
  by (induction s arbitrary: e) (auto split: option.splits sum.splits)

lemma str_encode_not_encodable:
  assumes "\<not> encodable s"
  shows "str_encode s = Inl UnicodeEncodeError"
proof (cases "str_encode s")
  case (Inl e)
  then show ?thesis using str_encode_error by blast
next
  case (Inr bs)
  then have "encodable s" by (rule str_encode_encodable)
  with assms show ?thesis by simp
qed

subsection \<open>Encrypting and decrypting\<close>

lemma str_encode_ascii:
  "list_all (\<lambda>c. c < 128) s \<Longrightarrow> str_encode s = Inr (map of_nat s)"
  by (induction s) (simp_all add: utf8_encode_char_def)

lemma context_literal_encodes:
  "\<exists>info. str_encode (py_literal ''mcp-token-encryption'') = Inr info"
proof -
  have "list_all (\<lambda>c. c < 128) (py_literal ''mcp-token-encryption'')"
    by (simp add: py_literal_def)
  then have "str_encode (py_literal ''mcp-token-encryption'')
      = Inr (map of_nat (py_literal ''mcp-token-encryption''))"
    by (rule str_encode_ascii)
  then show ?thesis by (rule exI)
qed

lemma b64encode_inj:
  assumes "b64encode xs = b64encode ys"
  shows "xs = ys"
proof -
  have "Inr xs = b64decode (b64encode xs)" by (simp add: b64decode_b64encode)
  also have "\<dots> = b64decode (b64encode ys)" by (simp only: assms)
  also have "\<dots> = Inr ys" by (simp add: b64decode_b64encode)
  finally show ?thesis by simp
qed

lemma get_master_key_valid:
  "environ W ''APOLLOS_VAULT_MASTER_KEY'' = Some mk \<Longrightarrow> 32 \<le> length mk
     \<Longrightarrow> get_master_key W = Inr mk"
  by (auto simp add: get_master_key_def Let_def)

lemma derive_key_valid:
  assumes "encodable mk"
  shows "\<exists>info km. derive_key W mk (py_literal ''mcp-token-encryption'')
           = Inr (hkdf_sha256 W info km)"
proof -
  obtain info where "str_encode (py_literal ''mcp-token-encryption'') = Inr info"
    using context_literal_encodes by blast
  moreover obtain km where "str_encode mk = Inr km"
    using str_encode_decode [OF assms] by blast
  ultimately show ?thesis by (auto simp add: derive_key_def)
qed

lemma encrypt_token_valid:
  assumes env: "environ W ''APOLLOS_VAULT_MASTER_KEY'' = Some mk"
    and len: "32 \<le> length mk" and mk: "encodable mk" and p: "encodable p"
  shows "\<exists>info km data.
           derive_key W mk (py_literal ''mcp-token-encryption'') = Inr (hkdf_sha256 W info km)
           \<and> str_encode p = Inr data \<and> bytes_decode data = Inr p
           \<and> encrypt_token W pos p =
               (Inr (b64encode (map (urandom_stream W) [pos ..< pos + 12]
                       @ aesgcm_encrypt W (hkdf_sha256 W info km)
                           (map (urandom_stream W) [pos ..< pos + 12]) data)),
                pos + 12)"
proof -
  obtain info km where key: "derive_key W mk (py_literal ''mcp-token-encryption'')
      = Inr (hkdf_sha256 W info km)"
    using derive_key_valid [OF mk] by blast
  obtain data where data: "str_encode p = Inr data" "bytes_decode data = Inr p"
    using str_encode_decode [OF p] by blast
  have master: "get_master_key W = Inr mk"
    using env len by (rule get_master_key_valid)
  have "encrypt_token W pos p =
      (Inr (b64encode (map (urandom_stream W) [pos ..< pos + 12]
              @ aesgcm_encrypt W (hkdf_sha256 W info km)
                  (map (urandom_stream W) [pos ..< pos + 12]) data)),
       pos + 12)"
    by (simp add: encrypt_token_def master key os_urandom_def data)
  with key data show ?thesis by blast
qed

lemma derive_key_length:
  assumes "cryptography_contract W" and "derive_key W mk context = Inr key"
  shows "length key = 32"
  using assms
  by (auto simp add: derive_key_def cryptography_contract_def split: sum.splits)

lemma decrypt_token_encrypted:
  assumes env: "environ W ''APOLLOS_VAULT_MASTER_KEY'' = Some mk" and len: "32 \<le> length mk"
    and lib: "cryptography_contract W"
    and key: "derive_key W mk (py_literal ''mcp-token-encryption'') = Inr key"
    and nonce: "length nonce = 12"
  shows "decrypt_token W (b64encode (nonce @ aesgcm_encrypt W key nonce data)) = bytes_decode data"
proof -
  have master: "get_master_key W = Inr mk"
    using env len by (rule get_master_key_valid)
  have "length key = 32"
    using lib key by (rule derive_key_length)
  with lib nonce have "aesgcm_decrypt W key nonce (aesgcm_encrypt W key nonce data) = Inr data"
    unfolding cryptography_contract_def by blast
  with nonce show ?thesis
    by (simp add: decrypt_token_def master key b64decode_b64encode)
qed

lemma b64encode_nonempty: "bs \<noteq> [] \<Longrightarrow> b64encode bs \<noteq> []"
  by (cases bs rule: b64encode.cases) simp_all

text \<open>
  C6, amended. Let the master key be set and have at least 32 characters. If the key and
  the string \<open>p\<close> both have a UTF-8 encoding (no surrogate code points; the empty string
  and non-ASCII strings are among them) and the cipher keeps the package's contract, then
  \<open>encrypt_token\<close> returns \<open>base64(nonce || ciphertext and tag)\<close> with a 12-byte nonce and
  \<open>decrypt_token\<close>, which takes the first 12 decoded bytes as the nonce, gives \<open>p\<close> back.
  If the key has an encoding and \<open>p\<close> has none, \<open>encrypt_token\<close> raises
  \<open>UnicodeEncodeError\<close> after drawing the nonce; if the key has none, it raises
  \<open>UnicodeEncodeError\<close> for every \<open>p\<close>, before drawing anything.
\<close>

theorem encrypt_decrypt_round_trip:
  assumes env: "environ W ''APOLLOS_VAULT_MASTER_KEY'' = Some mk"
    and len: "32 \<le> length mk"
  shows "(encodable mk \<and> encodable p \<and> cryptography_contract W \<longrightarrow>
            (\<exists>enc key nonce data.
               encrypt_token W pos p = (Inr enc, pos + 12)
               \<and> length nonce = 12 \<and> str_encode p = Inr data
               \<and> enc = b64encode (nonce @ aesgcm_encrypt W key nonce data)
               \<and> decrypt_token W enc = Inr p))
       \<and> (encodable mk \<and> \<not> encodable p \<longrightarrow>
            encrypt_token W pos p = (Inl UnicodeEncodeError, pos + 12))
       \<and> (\<not> encodable mk \<longrightarrow>
            encrypt_token W pos p = (Inl UnicodeEncodeError, pos))"
proof (intro conjI impI)
  assume a: "encodable mk \<and> encodable p \<and> cryptography_contract W"
  then have mk: "encodable mk" and p: "encodable p" and lib: "cryptography_contract W"
    by simp_all
  let ?nonce = "map (urandom_stream W) [pos ..< pos + 12]"
  obtain info km data where
    key: "derive_key W mk (py_literal ''mcp-token-encryption'') = Inr (hkdf_sha256 W info km)"
    and data: "str_encode p = Inr data" "bytes_decode data = Inr p"
    and enc: "encrypt_token W pos p =
      (Inr (b64encode (?nonce @ aesgcm_encrypt W (hkdf_sha256 W info km) ?nonce data)), pos + 12)"
    using encrypt_token_valid [OF env len mk p, of pos] by blast
  have nonce: "length ?nonce = 12" by simp
  have "decrypt_token W (b64encode (?nonce @ aesgcm_encrypt W (hkdf_sha256 W info km) ?nonce data))
      = Inr p"
    using decrypt_token_encrypted [OF env len lib key nonce, of data] data by simp
  with enc nonce data show "\<exists>enc key nonce data.
      encrypt_token W pos p = (Inr enc, pos + 12)
      \<and> length nonce = 12 \<and> str_encode p = Inr data
      \<and> enc = b64encode (nonce @ aesgcm_encrypt W key nonce data)
      \<and> decrypt_token W enc = Inr p"
    by blast
next
  assume a: "encodable mk \<and> \<not> encodable p"
  have master: "get_master_key W = Inr mk"
    using env len by (rule get_master_key_valid)
  obtain info km where
    key: "derive_key W mk (py_literal ''mcp-token-encryption'') = Inr (hkdf_sha256 W info km)"
    using derive_key_valid a by blast
  have "str_encode p = Inl UnicodeEncodeError"
    using a by (intro str_encode_not_encodable) simp
  then show "encrypt_token W pos p = (Inl UnicodeEncodeError, pos + 12)"
    by (simp add: encrypt_token_def master key os_urandom_def)
next
  assume a: "\<not> encodable mk"
  have master: "get_master_key W = Inr mk"
    using env len by (rule get_master_key_valid)
  obtain info where info: "str_encode (py_literal ''mcp-token-encryption'') = Inr info"
    using context_literal_encodes by blast
  have "str_encode mk = Inl UnicodeEncodeError"
    using a by (rule str_encode_not_encodable)
  then have "derive_key W mk (py_literal ''mcp-token-encryption'') = Inl UnicodeEncodeError"
    by (simp add: derive_key_def info)
  then show "encrypt_token W pos p = (Inl UnicodeEncodeError, pos)"
    by (simp add: encrypt_token_def master)
qed

text \<open>
  C7. Two calls of \<open>encrypt_token\<close> on the same plaintext that draw different nonces
  return different texts: the nonce is the first 12 bytes under the base64 encoding,
  which is injective. That two draws of \<open>os.urandom(12)\<close> differ is what a fresh nonce
  means; it is a property of the random source, not of the code.
\<close>

theorem encrypt_twice_differs:
  assumes env: "environ W ''APOLLOS_VAULT_MASTER_KEY'' = Some mk"
    and len: "32 \<le> length mk" and mk: "encodable mk"
    and p: "encodable p"
    and fresh: "fst (os_urandom W pos 12) \<noteq> fst (os_urandom W pos' 12)"
  shows "\<exists>enc enc'. fst (encrypt_token W pos p) = Inr enc
           \<and> fst (encrypt_token W pos' p) = Inr enc' \<and> enc \<noteq> enc'"
proof -
  obtain info km where key: "derive_key W mk (py_literal ''mcp-token-encryption'')
      = Inr (hkdf_sha256 W info km)"
    using derive_key_valid [OF mk] by blast
  let ?key = "hkdf_sha256 W info km"
  obtain data where data: "str_encode p = Inr data"
    using str_encode_decode [OF p] by blast
  have master: "get_master_key W = Inr mk"
    using env len by (rule get_master_key_valid)
  let ?n = "map (urandom_stream W) [pos ..< pos + 12]"
  let ?n' = "map (urandom_stream W) [pos' ..< pos' + 12]"
  have e1: "fst (encrypt_token W pos p) = Inr (b64encode (?n @ aesgcm_encrypt W ?key ?n data))"
    by (simp add: encrypt_token_def master key os_urandom_def data)
  have e2: "fst (encrypt_token W pos' p) = Inr (b64encode (?n' @ aesgcm_encrypt W ?key ?n' data))"
    by (simp add: encrypt_token_def master key os_urandom_def data)
  have "?n \<noteq> ?n'" using fresh by (simp add: os_urandom_def)
  moreover have "length ?n = length ?n'" by simp
  ultimately have "?n @ aesgcm_encrypt W ?key ?n data \<noteq> ?n' @ aesgcm_encrypt W ?key ?n' data"
    by (simp add: append_eq_append_conv)
  then have "b64encode (?n @ aesgcm_encrypt W ?key ?n data)
               \<noteq> b64encode (?n' @ aesgcm_encrypt W ?key ?n' data)"
    using b64encode_inj by blast
  with e1 e2 show ?thesis by blast
qed

lemma demo_world_key:
  "environ demo_world ''APOLLOS_VAULT_MASTER_KEY'' = Some demo_key"
  "32 \<le> length demo_key" "encodable demo_key"
  by (simp_all add: demo_world_def demo_key_def py_literal_def encodable_def)

lemma demo_world_contract: "cryptography_contract demo_world"
  by (auto simp add: cryptography_contract_def demo_world_def)

lemma demo_world_fresh:
  "fst (os_urandom demo_world 0 12) \<noteq> fst (os_urandom demo_world 12 12)"
proof
  assume "fst (os_urandom demo_world 0 12) = fst (os_urandom demo_world 12 12)"
  then have "hd (fst (os_urandom demo_world 0 12)) = hd (fst (os_urandom demo_world 12 12))"
    by simp
  then show False
    by (simp add: os_urandom_def demo_world_def upt_conv_Cons hd_map)
qed

lemma demo_surrogate_key:
  "32 \<le> length demo_surrogate_key" "\<not> encodable demo_surrogate_key"
  by (simp_all add: demo_surrogate_key_def encodable_def list_all_iff)

theorem encrypt_decrypt_round_trip_witness:
  "environ demo_world ''APOLLOS_VAULT_MASTER_KEY'' = Some demo_key
   \<and> 32 \<le> length demo_key \<and> encodable demo_key \<and> cryptography_contract demo_world
   \<and> encodable [72, 233, 8364, 128512] \<and> encodable []
   \<and> (\<exists>enc. fst (encrypt_token demo_world 0 [72, 233, 8364, 128512]) = Inr enc
          \<and> decrypt_token demo_world enc = Inr [72, 233, 8364, 128512])
   \<and> (\<exists>enc. fst (encrypt_token demo_world 12 []) = Inr enc
          \<and> decrypt_token demo_world enc = Inr [])
   \<and> \<not> encodable [65, 0xDC00]
   \<and> encrypt_token demo_world 0 [65, 0xDC00] = (Inl UnicodeEncodeError, 12)
   \<and> environ (demo_world\<lparr>environ := [''APOLLOS_VAULT_MASTER_KEY'' \<mapsto> demo_surrogate_key]\<rparr>)
         ''APOLLOS_VAULT_MASTER_KEY'' = Some demo_surrogate_key
   \<and> 32 \<le> length demo_surrogate_key \<and> \<not> encodable demo_surrogate_key
   \<and> encrypt_token (demo_world\<lparr>environ := [''APOLLOS_VAULT_MASTER_KEY'' \<mapsto> demo_surrogate_key]\<rparr>)
         0 [97, 98, 99] = (Inl UnicodeEncodeError, 0)"
proof -
  have a: "encodable [72, 233, 8364, 128512]" and b: "encodable []"
    and c: "\<not> encodable [65, 0xDC00]"
    by (simp_all add: encodable_def)
  let ?W = "demo_world\<lparr>environ := [''APOLLOS_VAULT_MASTER_KEY'' \<mapsto> demo_surrogate_key]\<rparr>"
  have env': "environ ?W ''APOLLOS_VAULT_MASTER_KEY'' = Some demo_surrogate_key"
    by simp
  from encrypt_decrypt_round_trip [OF demo_world_key(1,2), of "[72, 233, 8364, 128512]" 0]
  have one: "\<exists>enc. fst (encrypt_token demo_world 0 [72, 233, 8364, 128512]) = Inr enc
          \<and> decrypt_token demo_world enc = Inr [72, 233, 8364, 128512]"
    using demo_world_key(3) demo_world_contract a by auto
  from encrypt_decrypt_round_trip [OF demo_world_key(1,2), of "[]" 12]
  have two: "\<exists>enc. fst (encrypt_token demo_world 12 []) = Inr enc
          \<and> decrypt_token demo_world enc = Inr []"
    using demo_world_key(3) demo_world_contract b by auto
  from encrypt_decrypt_round_trip [OF demo_world_key(1,2), of "[65, 0xDC00]" 0]
  have three: "encrypt_token demo_world 0 [65, 0xDC00] = (Inl UnicodeEncodeError, 12)"
    using demo_world_key(3) c by simp
  from encrypt_decrypt_round_trip [OF env' demo_surrogate_key(1), of "[97, 98, 99]" 0]
  have four: "encrypt_token ?W 0 [97, 98, 99] = (Inl UnicodeEncodeError, 0)"
    using demo_surrogate_key(2) by simp
  from one two three four env' demo_world_key demo_world_contract a b c demo_surrogate_key
  show ?thesis by (intro conjI)
qed

text \<open>
  C6 as stated, for every string, fails: a string holding a lone surrogate has no UTF-8
  encoding, and \<open>encrypt_token\<close> raises \<open>UnicodeEncodeError\<close> on it under a valid key.
\<close>

theorem encrypt_surrogate_counterexample:
  "get_master_key demo_world = Inr demo_key
   \<and> fst (encrypt_token demo_world 0 [0xD800]) = Inl UnicodeEncodeError"
proof -
  have master: "get_master_key demo_world = Inr demo_key"
    using demo_world_key(1,2) by (rule get_master_key_valid)
  obtain info km where key: "derive_key demo_world demo_key (py_literal ''mcp-token-encryption'')
      = Inr (hkdf_sha256 demo_world info km)"
    using derive_key_valid [OF demo_world_key(3)] by blast
  have "str_encode [0xD800] = Inl UnicodeEncodeError"
    by (simp add: utf8_encode_char_def)
  then show ?thesis
    by (simp add: encrypt_token_def master key os_urandom_def)
qed

theorem encrypt_twice_differs_witness:
  "environ demo_world ''APOLLOS_VAULT_MASTER_KEY'' = Some demo_key
   \<and> 32 \<le> length demo_key \<and> encodable demo_key \<and> encodable [72, 233]
   \<and> fst (os_urandom demo_world 0 12) \<noteq> fst (os_urandom demo_world 12 12)
   \<and> snd (encrypt_token demo_world 0 [72, 233]) = 12
   \<and> fst (encrypt_token demo_world 0 [72, 233]) \<noteq> fst (encrypt_token demo_world 12 [72, 233])"
proof -
  have a: "encodable [72, 233]" by (simp add: encodable_def)
  from encrypt_token_valid [OF demo_world_key a, of 0]
  have "snd (encrypt_token demo_world 0 [72, 233]) = 12" by auto
  moreover from encrypt_twice_differs [OF demo_world_key a demo_world_fresh]
  have "fst (encrypt_token demo_world 0 [72, 233]) \<noteq> fst (encrypt_token demo_world 12 [72, 233])"
    by auto
  ultimately show ?thesis
    using demo_world_key a demo_world_fresh by blast
qed

section \<open>Properties of token refresh\<close>

lemma asave_replaces:
  "r \<in> set (asave c rows) \<Longrightarrow> conn_pk r = conn_pk c \<Longrightarrow> r = c"
  by (auto simp add: asave_def split: if_splits)

lemma asave_keeps_others:
  "r \<in> set (asave c rows) \<Longrightarrow> conn_pk r \<noteq> conn_pk c \<Longrightarrow> r \<in> set rows"
  by (auto simp add: asave_def split: if_splits)

lemma stays_failed_asave_other:
  "stays_failed k rows \<Longrightarrow> conn_pk c \<noteq> k \<Longrightarrow> stays_failed k (asave c rows)"
  unfolding stays_failed_def using asave_keeps_others by metis

lemma stays_failed_asave_failed:
  "conn_status c = ERROR \<Longrightarrow> stays_failed (conn_pk c) (asave c rows)"
  unfolding stays_failed_def using asave_replaces by metis

lemma store_refreshed_tokens_stays_failed:
  assumes "stays_failed k rows" and "conn_pk conn \<noteq> k"
  shows "stays_failed k (fst (snd (store_refreshed_tokens W pos rows conn resp)))"
  using assms unfolding store_refreshed_tokens_def
  by (auto split: option.splits sum.splits prod.splits intro!: stays_failed_asave_other)

lemma refresh_access_token_stays_failed:
  assumes "stays_failed k rows" and "conn_pk conn \<noteq> k"
  shows "stays_failed k (fst (snd (refresh_access_token W pos services rows conn)))"
  using assms unfolding refresh_access_token_def
  by (auto split: sum.splits prod.splits
        intro!: stays_failed_asave_other store_refreshed_tokens_stays_failed)

lemma refresh_each_stays_failed:
  "stays_failed k rows \<Longrightarrow> \<forall>c \<in> set expiring. conn_pk c \<noteq> k
     \<Longrightarrow> stays_failed k (fst (refresh_each W services expiring rows pos))"
proof (induction expiring arbitrary: rows pos)
  case Nil
  then show ?case by simp
next
  case (Cons conn expiring)
  obtain outcome rows' pos' where
    step: "refresh_access_token W pos services rows conn = (outcome, rows', pos')"
    by (cases "refresh_access_token W pos services rows conn") auto
  have "stays_failed k rows'"
    using refresh_access_token_stays_failed [of k rows conn W pos services] Cons.prems step
    by simp
  then have "stays_failed k (fst (refresh_each W services expiring rows' pos'))"
    using Cons.IH Cons.prems by simp
  with step show ?case by simp
qed

lemma expiring_connections_not_failed:
  "stays_failed k rows \<Longrightarrow> \<forall>c \<in> set (expiring_connections now rows). conn_pk c \<noteq> k"
  by (auto simp add: stays_failed_def expiring_connections_def)

lemma run_sweeps_stays_failed:
  "stays_failed k rows \<Longrightarrow>
     never_selected k (fst (run_sweeps Ws services rows pos))
     \<and> stays_failed k (snd (run_sweeps Ws services rows pos))"
proof (induction Ws arbitrary: rows pos)
  case Nil
  then show ?case by (simp add: never_selected_def)
next
  case (Cons W Ws)
  obtain rows' pos' where
    sweep: "refresh_expiring_mcp_tokens W services rows pos = (rows', pos')"
    by (cases "refresh_expiring_mcp_tokens W services rows pos") auto
  have sel: "\<forall>c \<in> set (expiring_connections (timezone_now W) rows). conn_pk c \<noteq> k"
    using Cons.prems by (rule expiring_connections_not_failed)
  then have "stays_failed k rows'"
    using refresh_each_stays_failed [OF Cons.prems sel, of W services pos] sweep
    by (simp add: refresh_expiring_mcp_tokens_def)
  then have ih: "never_selected k (fst (run_sweeps Ws services rows' pos'))
      \<and> stays_failed k (snd (run_sweeps Ws services rows' pos'))"
    by (rule Cons.IH)
  obtain selections final where rest: "run_sweeps Ws services rows' pos' = (selections, final)"
    by (cases "run_sweeps Ws services rows' pos'") auto
  with ih sel sweep show ?case
    by (simp add: never_selected_def)
qed

text \<open>
  C9. When \<open>refresh_access_token\<close> reaches the token endpoint for a connected connection
  and the answer is not 200, it returns \<open>False\<close> and saves the connection with status
  \<open>ERROR\<close> and the message \<open>Refresh failed: <code>\<close>. From then on, in every run of
  sweeps (whatever clock, network, random bytes and services each sweep meets) no sweep
  selects a row with that primary key, and the row keeps status \<open>ERROR\<close>: the query
  takes connected rows only and a sweep writes selected rows only.
\<close>

theorem failed_refresh_is_terminal:
  assumes "conn_status c = CONNECTED" and "truthy (refresh_token c)"
    and "refresh_request W services c = Inr (endpoint, form)"
    and "http_post W endpoint form = Inr resp"
    and "resp_status_code resp \<noteq> 200"
  shows "refresh_access_token W pos services rows c
           = (Inr False,
              asave (c\<lparr>conn_status := ERROR,
                       error_message := Some (''Refresh failed: '' @ show_nat (resp_status_code resp))\<rparr>)
                rows,
              pos)
       \<and> (\<forall>r \<in> set (fst (snd (refresh_access_token W pos services rows c))).
             conn_pk r = conn_pk c \<longrightarrow>
               conn_status r = ERROR
               \<and> error_message r = Some (''Refresh failed: '' @ show_nat (resp_status_code resp)))
       \<and> (\<forall>Ws services' pos'.
             never_selected (conn_pk c)
               (fst (run_sweeps Ws services' (fst (snd (refresh_access_token W pos services rows c))) pos'))
             \<and> stays_failed (conn_pk c)
               (snd (run_sweeps Ws services' (fst (snd (refresh_access_token W pos services rows c))) pos')))"
proof -
  let ?failed = "c\<lparr>conn_status := ERROR,
      error_message := Some (''Refresh failed: '' @ show_nat (resp_status_code resp))\<rparr>"
  have result: "refresh_access_token W pos services rows c = (Inr False, asave ?failed rows, pos)"
    using assms by (simp add: refresh_access_token_def)
  have row: "\<forall>r \<in> set (asave ?failed rows). conn_pk r = conn_pk c \<longrightarrow> r = ?failed"
    using asave_replaces [of _ ?failed rows] by simp
  have "stays_failed (conn_pk ?failed) (asave ?failed rows)"
    by (rule stays_failed_asave_failed) simp
  then have inv: "stays_failed (conn_pk c) (asave ?failed rows)" by simp
  have "\<forall>Ws services' pos'.
      never_selected (conn_pk c) (fst (run_sweeps Ws services' (asave ?failed rows) pos'))
      \<and> stays_failed (conn_pk c) (snd (run_sweeps Ws services' (asave ?failed rows) pos'))"
    using run_sweeps_stays_failed [OF inv] by blast
  with result row show ?thesis by auto
qed

lemma demo_refresh_token:
  "decrypt_token demo_world demo_refresh_token = Inr (py_literal ''refresh-1'')"
  "demo_refresh_token \<noteq> []"
proof -
  let ?nonce = "map (urandom_stream demo_world) [0 ..< 0 + 12]"
  have p: "encodable (py_literal ''refresh-1'')"
    by (simp add: encodable_def py_literal_def)
  obtain info km data where
    key: "derive_key demo_world demo_key (py_literal ''mcp-token-encryption'')
            = Inr (hkdf_sha256 demo_world info km)"
    and data: "bytes_decode data = Inr (py_literal ''refresh-1'')"
    and enc: "encrypt_token demo_world 0 (py_literal ''refresh-1'') =
      (Inr (b64encode (?nonce @ aesgcm_encrypt demo_world (hkdf_sha256 demo_world info km) ?nonce data)),
       0 + 12)"
    using encrypt_token_valid [OF demo_world_key p, of 0] by blast
  have tok: "demo_refresh_token
      = b64encode (?nonce @ aesgcm_encrypt demo_world (hkdf_sha256 demo_world info km) ?nonce data)"
    by (simp add: demo_refresh_token_def enc)
  have nonce: "length ?nonce = 12" by simp
  show "decrypt_token demo_world demo_refresh_token = Inr (py_literal ''refresh-1'')"
    unfolding tok
    using decrypt_token_encrypted [OF demo_world_key(1,2) demo_world_contract key nonce, of data] data
    by simp
  have "?nonce \<noteq> []" using nonce by auto
  then show "demo_refresh_token \<noteq> []"
    unfolding tok by (intro b64encode_nonempty) simp
qed

lemma show_nat_401: "show_nat 401 = ''401''"
  by (simp add: show_nat.simps digit_char_def)

lemma demo_refresh_request:
  "refresh_request demo_world [demo_service] demo_expiring_connection
     = Inr (''https://mcp.example/token'',
            \<lparr>form_grant_type = ''refresh_token'',
             form_refresh_token = py_literal ''refresh-1'',
             form_client_id = Some ''apollos'', form_client_secret = None\<rparr>)"
  by (simp add: refresh_request_def token_endpoint_of_def demo_service_def
        demo_expiring_connection_def demo_refresh_token(1))

theorem failed_refresh_is_terminal_witness:
  "conn_status demo_expiring_connection = CONNECTED
   \<and> truthy (refresh_token demo_expiring_connection)
   \<and> refresh_request demo_world [demo_service] demo_expiring_connection
       = Inr (''https://mcp.example/token'',
              \<lparr>form_grant_type = ''refresh_token'',
               form_refresh_token = py_literal ''refresh-1'',
               form_client_id = Some ''apollos'', form_client_secret = None\<rparr>)
   \<and> http_post demo_world ''https://mcp.example/token''
         \<lparr>form_grant_type = ''refresh_token'',
          form_refresh_token = py_literal ''refresh-1'',
          form_client_id = Some ''apollos'', form_client_secret = None\<rparr>
       = Inr \<lparr>resp_status_code = 401, resp_json = None\<rparr>
   \<and> demo_expiring_connection \<in> set (expiring_connections (timezone_now demo_world)
                                         [demo_expiring_connection])
   \<and> refresh_access_token demo_world 0 [demo_service] [demo_expiring_connection]
         demo_expiring_connection
       = (Inr False,
          [demo_expiring_connection\<lparr>conn_status := ERROR,
                                     error_message := Some ''Refresh failed: 401''\<rparr>],
          0)
   \<and> never_selected 7
        (fst (run_sweeps [demo_world, demo_world] [demo_service]
                [demo_expiring_connection\<lparr>conn_status := ERROR,
                                           error_message := Some ''Refresh failed: 401''\<rparr>] 0))"
proof -
  have pre: "conn_status demo_expiring_connection = CONNECTED"
    "truthy (refresh_token demo_expiring_connection)"
    by (simp_all add: demo_expiring_connection_def demo_refresh_token(2))
  have post: "http_post demo_world ''https://mcp.example/token''
         \<lparr>form_grant_type = ''refresh_token'',
          form_refresh_token = py_literal ''refresh-1'',
          form_client_id = Some ''apollos'', form_client_secret = None\<rparr>
       = Inr \<lparr>resp_status_code = 401, resp_json = None\<rparr>"
    by (simp add: demo_world_def)
  have code: "resp_status_code \<lparr>resp_status_code = 401, resp_json = None\<rparr> \<noteq> 200"
    by simp
  have sel: "demo_expiring_connection \<in> set (expiring_connections (timezone_now demo_world)
                                         [demo_expiring_connection])"
    by (simp add: expiring_connections_def demo_expiring_connection_def demo_world_def)
  have saved: "asave (demo_expiring_connection\<lparr>conn_status := ERROR,
                        error_message := Some ''Refresh failed: 401''\<rparr>)
                 [demo_expiring_connection]
      = [demo_expiring_connection\<lparr>conn_status := ERROR,
                                   error_message := Some ''Refresh failed: 401''\<rparr>]"
    by (simp add: asave_def)
  have pk: "conn_pk demo_expiring_connection = 7"
    by (simp add: demo_expiring_connection_def)
  note at_demo = failed_refresh_is_terminal [OF pre demo_refresh_request post code,
      of 0 "[demo_expiring_connection]"]
  from at_demo have res: "refresh_access_token demo_world 0 [demo_service] [demo_expiring_connection]
         demo_expiring_connection
       = (Inr False,
          [demo_expiring_connection\<lparr>conn_status := ERROR,
                                     error_message := Some ''Refresh failed: 401''\<rparr>],
          0)"
    by (simp add: show_nat_401 saved)
  from at_demo have "never_selected (conn_pk demo_expiring_connection)
        (fst (run_sweeps [demo_world, demo_world] [demo_service]
                (fst (snd (refresh_access_token demo_world 0 [demo_service]
                             [demo_expiring_connection] demo_expiring_connection))) 0))"
    by blast
  then have never: "never_selected 7
        (fst (run_sweeps [demo_world, demo_world] [demo_service]
                [demo_expiring_connection\<lparr>conn_status := ERROR,
                                           error_message := Some ''Refresh failed: 401''\<rparr>] 0))"
    by (simp only: res fst_conv snd_conv pk)
  from pre demo_refresh_request post sel res never show ?thesis
    by (intro conjI)
qed

section \<open>Properties of key rotation\<close>

lemma derive_key_environ:
  "derive_key (W\<lparr>environ := env\<rparr>) k context = derive_key W k context"
  by (simp add: derive_key_def split: sum.splits)

lemma cryptography_contract_environ:
  "cryptography_contract (W\<lparr>environ := env\<rparr>) = cryptography_contract W"
  by (simp add: cryptography_contract_def)

text \<open>
  What the loop does to one stored field: a text that was encrypted under the old master
  key is decrypted with the key derived from it and comes back encrypted under the key
  now in the environment, so that \<open>decrypt_token\<close> reads the same plaintext from it.
\<close>

lemma rotate_field_reencrypts:
  assumes old: "environ W\<^sub>0 ''APOLLOS_VAULT_MASTER_KEY'' = Some old_key"
      "32 \<le> length old_key" "encodable old_key"
    and new: "W = W\<^sub>0\<lparr>environ := [''APOLLOS_VAULT_MASTER_KEY'' \<mapsto> new_key]\<rparr>"
      "32 \<le> length new_key" "encodable new_key"
    and lib: "cryptography_contract W\<^sub>0"
    and p: "encodable p"
    and stored: "encrypt_token W\<^sub>0 pos\<^sub>0 p = (Inr stored, pos\<^sub>1)"
    and derived: "derive_key W old_key (py_literal ''mcp-token-encryption'') = Inr old_derived"
  shows "\<exists>enc. rotate_field W old_derived pos stored = (Inr enc, pos + 12)
           \<and> decrypt_token W enc = Inr p"
proof -
  let ?n0 = "map (urandom_stream W\<^sub>0) [pos\<^sub>0 ..< pos\<^sub>0 + 12]"
  obtain info km data where
    key0: "derive_key W\<^sub>0 old_key (py_literal ''mcp-token-encryption'')
             = Inr (hkdf_sha256 W\<^sub>0 info km)"
    and data: "str_encode p = Inr data" "bytes_decode data = Inr p"
    and enc0: "encrypt_token W\<^sub>0 pos\<^sub>0 p =
      (Inr (b64encode (?n0 @ aesgcm_encrypt W\<^sub>0 (hkdf_sha256 W\<^sub>0 info km) ?n0 data)), pos\<^sub>0 + 12)"
    using encrypt_token_valid [OF old p, of pos\<^sub>0] by blast
  have same: "old_derived = hkdf_sha256 W\<^sub>0 info km"
    using derived key0 by (simp add: new(1) derive_key_environ)
  have stored_is: "stored = b64encode (?n0 @ aesgcm_encrypt W\<^sub>0 old_derived ?n0 data)"
    using stored enc0 same by auto
  have "length old_derived = 32"
    using lib key0 same derive_key_length by blast
  then have "aesgcm_decrypt W\<^sub>0 old_derived ?n0 (aesgcm_encrypt W\<^sub>0 old_derived ?n0 data) = Inr data"
    using lib unfolding cryptography_contract_def by simp
  then have decrypted: "aesgcm_decrypt W old_derived ?n0 (aesgcm_encrypt W\<^sub>0 old_derived ?n0 data) = Inr data"
    by (simp add: new(1))
  have step: "rotate_field W old_derived pos stored = encrypt_token W pos p"
    unfolding stored_is by (simp add: rotate_field_def b64decode_b64encode decrypted data)
  have env: "environ W ''APOLLOS_VAULT_MASTER_KEY'' = Some new_key"
    by (simp add: new(1))
  have lib': "cryptography_contract W"
    using lib by (simp add: new(1) cryptography_contract_environ)
  from encrypt_token_valid [OF env new(2,3) p, of pos]
  obtain info' km' data' where
    key': "derive_key W new_key (py_literal ''mcp-token-encryption'')
             = Inr (hkdf_sha256 W info' km')"
    and data': "str_encode p = Inr data'" "bytes_decode data' = Inr p"
    and enc': "encrypt_token W pos p =
      (Inr (b64encode (map (urandom_stream W) [pos ..< pos + 12]
               @ aesgcm_encrypt W (hkdf_sha256 W info' km')
                   (map (urandom_stream W) [pos ..< pos + 12]) data')), pos + 12)"
    by blast
  have "decrypt_token W (b64encode (map (urandom_stream W) [pos ..< pos + 12]
               @ aesgcm_encrypt W (hkdf_sha256 W info' km')
                   (map (urandom_stream W) [pos ..< pos + 12]) data')) = Inr p"
    using decrypt_token_encrypted [OF env new(2) lib' key', of "map (urandom_stream W) [pos ..< pos + 12]" data']
      data' by simp
  with step enc' show ?thesis by simp
qed

text \<open>The closing tally accounts for every connection the loop went through.\<close>

lemma rotate_loop_tally:
  "rot_success (rotate_loop W old_derived connections st)
     + rot_errors (rotate_loop W old_derived connections st)
   = rot_success st + rot_errors st + length connections"
proof (induction connections arbitrary: st)
  case Nil
  show ?case by simp
next
  case (Cons conn connections)
  show ?case
    by (simp add: Cons.IH split: prod.splits sum.splits)
qed

text \<open>
  C8. \<open>handle\<close> leaves every stored row as it was, draws no random bytes and counts no
  rotation when the old key is shorter than 32 characters, when the new key is missing
  from the environment or shorter than 32 characters, when the two keys are equal, or in a
  dry run. Each violation writes its own error and nothing else; a dry run with valid keys
  writes the number of connections that hold an access token, then the dry-run warning.
\<close>

theorem rotate_aborts_without_changes:
  "(length (opt_old_key opts) < 32
      \<or> (case environ W ''APOLLOS_VAULT_MASTER_KEY'' of None \<Rightarrow> True | Some k \<Rightarrow> length k < 32)
      \<or> environ W ''APOLLOS_VAULT_MASTER_KEY'' = Some (opt_old_key opts)
      \<or> opt_dry_run opts
    \<longrightarrow> fst (handle W pos opts rows) = None
        \<and> rot_rows (snd (handle W pos opts rows)) = rows
        \<and> rot_success (snd (handle W pos opts rows)) = 0
        \<and> rot_errors (snd (handle W pos opts rows)) = 0
        \<and> rot_pos (snd (handle W pos opts rows)) = pos)
   \<and> (length (opt_old_key opts) < 32
        \<longrightarrow> rot_output (snd (handle W pos opts rows)) = [ERROR_old_key_too_short])
   \<and> (32 \<le> length (opt_old_key opts)
        \<and> (case environ W ''APOLLOS_VAULT_MASTER_KEY'' of None \<Rightarrow> True | Some k \<Rightarrow> length k < 32)
        \<longrightarrow> rot_output (snd (handle W pos opts rows)) = [ERROR_new_key_not_set])
   \<and> (32 \<le> length (opt_old_key opts)
        \<and> environ W ''APOLLOS_VAULT_MASTER_KEY'' = Some (opt_old_key opts)
        \<longrightarrow> rot_output (snd (handle W pos opts rows)) = [ERROR_keys_are_the_same])
   \<and> (32 \<le> length (opt_old_key opts)
        \<and> environ W ''APOLLOS_VAULT_MASTER_KEY'' = Some new_key \<and> 32 \<le> length new_key
        \<and> new_key \<noteq> opt_old_key opts \<and> opt_dry_run opts
        \<longrightarrow> rot_output (snd (handle W pos opts rows))
              = [Found_connections (length (connections_to_rotate rows)), WARNING_dry_run])"
  by (cases "environ W ''APOLLOS_VAULT_MASTER_KEY''")
     (auto simp add: handle_def Let_def)

lemma demo_keys:
  "length demo_key = 32" "length demo_old_key = 32" "demo_old_key \<noteq> demo_key"
  "demo_key \<noteq> demo_old_key"
  "length (py_literal ''short'') = 5"
  by (simp_all add: demo_key_def demo_old_key_def py_literal_def)

lemma demo_rows_to_rotate:
  "connections_to_rotate [demo_expiring_connection, demo_empty_connection]
     = [demo_expiring_connection]"
  by (simp add: connections_to_rotate_def demo_expiring_connection_def demo_empty_connection_def
        py_literal_def)

theorem rotate_aborts_without_changes_witness:
  "length (opt_old_key \<lparr>opt_old_key = py_literal ''short'', opt_dry_run = False\<rparr>) < 32
   \<and> snd (handle demo_world 0 \<lparr>opt_old_key = py_literal ''short'', opt_dry_run = False\<rparr>
             [demo_expiring_connection, demo_empty_connection])
       = \<lparr>rot_rows = [demo_expiring_connection, demo_empty_connection], rot_success = 0,
          rot_errors = 0, rot_output = [ERROR_old_key_too_short], rot_pos = 0\<rparr>
   \<and> environ (demo_world\<lparr>environ := Map.empty\<rparr>) ''APOLLOS_VAULT_MASTER_KEY'' = None
   \<and> snd (handle (demo_world\<lparr>environ := Map.empty\<rparr>) 0
             \<lparr>opt_old_key = demo_old_key, opt_dry_run = False\<rparr>
             [demo_expiring_connection, demo_empty_connection])
       = \<lparr>rot_rows = [demo_expiring_connection, demo_empty_connection], rot_success = 0,
          rot_errors = 0, rot_output = [ERROR_new_key_not_set], rot_pos = 0\<rparr>
   \<and> environ demo_world ''APOLLOS_VAULT_MASTER_KEY'' = Some demo_key
   \<and> snd (handle demo_world 0 \<lparr>opt_old_key = demo_key, opt_dry_run = False\<rparr>
             [demo_expiring_connection, demo_empty_connection])
       = \<lparr>rot_rows = [demo_expiring_connection, demo_empty_connection], rot_success = 0,
          rot_errors = 0, rot_output = [ERROR_keys_are_the_same], rot_pos = 0\<rparr>
   \<and> 32 \<le> length demo_old_key \<and> 32 \<le> length demo_key \<and> demo_key \<noteq> demo_old_key
   \<and> snd (handle demo_world 0 \<lparr>opt_old_key = demo_old_key, opt_dry_run = True\<rparr>
             [demo_expiring_connection, demo_empty_connection])
       = \<lparr>rot_rows = [demo_expiring_connection, demo_empty_connection], rot_success = 0,
          rot_errors = 0, rot_output = [Found_connections 1, WARNING_dry_run], rot_pos = 0\<rparr>"
proof -
  let ?rows = "[demo_expiring_connection, demo_empty_connection]"
  have env: "environ demo_world ''APOLLOS_VAULT_MASTER_KEY'' = Some demo_key"
    "environ (demo_world\<lparr>environ := Map.empty\<rparr>) ''APOLLOS_VAULT_MASTER_KEY'' = None"
    by (simp_all add: demo_world_def)
  note short = rotate_aborts_without_changes
    [of "\<lparr>opt_old_key = py_literal ''short'', opt_dry_run = False\<rparr>" demo_world 0 ?rows]
  note unset = rotate_aborts_without_changes
    [of "\<lparr>opt_old_key = demo_old_key, opt_dry_run = False\<rparr>"
        "demo_world\<lparr>environ := Map.empty\<rparr>" 0 ?rows]
  note same = rotate_aborts_without_changes
    [of "\<lparr>opt_old_key = demo_key, opt_dry_run = False\<rparr>" demo_world 0 ?rows]
  note dry = rotate_aborts_without_changes
    [of "\<lparr>opt_old_key = demo_old_key, opt_dry_run = True\<rparr>" demo_world 0 ?rows demo_key]
  have s1: "snd (handle demo_world 0 \<lparr>opt_old_key = py_literal ''short'', opt_dry_run = False\<rparr> ?rows)
       = \<lparr>rot_rows = ?rows, rot_success = 0, rot_errors = 0,
          rot_output = [ERROR_old_key_too_short], rot_pos = 0\<rparr>"
    using short
    by (simp add: demo_keys RotateState.equality)
  have s2: "snd (handle (demo_world\<lparr>environ := Map.empty\<rparr>) 0
             \<lparr>opt_old_key = demo_old_key, opt_dry_run = False\<rparr> ?rows)
       = \<lparr>rot_rows = ?rows, rot_success = 0, rot_errors = 0,
          rot_output = [ERROR_new_key_not_set], rot_pos = 0\<rparr>"
    using unset
    by (simp add: demo_keys env RotateState.equality)
  have s3: "snd (handle demo_world 0 \<lparr>opt_old_key = demo_key, opt_dry_run = False\<rparr> ?rows)
       = \<lparr>rot_rows = ?rows, rot_success = 0, rot_errors = 0,
          rot_output = [ERROR_keys_are_the_same], rot_pos = 0\<rparr>"
    using same
    by (simp add: demo_keys env RotateState.equality)
  have s4: "snd (handle demo_world 0 \<lparr>opt_old_key = demo_old_key, opt_dry_run = True\<rparr> ?rows)
       = \<lparr>rot_rows = ?rows, rot_success = 0, rot_errors = 0,
          rot_output = [Found_connections 1, WARNING_dry_run], rot_pos = 0\<rparr>"
    using dry
    by (simp add: demo_keys env demo_rows_to_rotate RotateState.equality)
  from s1 s2 s3 s4 env show ?thesis
    by (simp add: demo_keys)
qed

end
